theory Spec2Isabelle
  imports Complex_Main "HOL-Library.Char_ord" "HOL-Library.List_Lexorder"
    "HOL-Library.Product_Lexorder"
begin

section \<open>Numbers, exceptions and NumPy scalars\<close>

text \<open>
  Python floats and NumPy float64 values are modelled as real numbers with exact
  arithmetic. Two things a real number cannot express are kept apart:

  \<^item> a Python-level exception (\<open>Raise\<close>): plain \<open>float / float\<close> and \<open>int / int\<close> with a zero
    divisor raise \<open>ZeroDivisionError\<close>, a missing dictionary key raises \<open>KeyError\<close>,
    \<open>float(None)\<close> raises \<open>TypeError\<close>, an index out of range raises \<open>IndexError\<close>;
  \<^item> a NumPy operation that yields \<open>inf\<close> or \<open>nan\<close> (\<open>NotFinite\<close>): NumPy divides by zero
    and takes the root of a negative number with a warning only. Such a run leaves the
    real-number model; \<open>NotFinite\<close> says nothing about what the program does afterwards.
\<close>

datatype py_error =
  ZeroDivisionError | KeyError string | TypeError | ValueError | IndexError

datatype 'a res = Ok 'a | Raise py_error | NotFinite

definition thn :: "'a res \<Rightarrow> ('a \<Rightarrow> 'b res) \<Rightarrow> 'b res" where
  "thn m f = (case m of Ok x \<Rightarrow> f x | Raise e \<Rightarrow> Raise e | NotFinite \<Rightarrow> NotFinite)"

definition py_div :: "real \<Rightarrow> real \<Rightarrow> real res" where
  \<comment> \<open>\<open>a / b\<close> on Python \<open>float\<close>/\<open>int\<close> operands\<close>
  "py_div a b = (if b = 0 then Raise ZeroDivisionError else Ok (a / b))"

definition np_div :: "real \<Rightarrow> real \<Rightarrow> real res" where
  \<comment> \<open>\<open>a / b\<close> when an operand is a NumPy scalar\<close>
  "np_div a b = (if b = 0 then NotFinite else Ok (a / b))"

definition np_sqrt :: "real \<Rightarrow> real res" where
  "np_sqrt x = (if x < 0 then NotFinite else Ok (sqrt x))"

definition py_round :: "nat \<Rightarrow> real \<Rightarrow> real" where
  \<comment> \<open>\<open>round(x, n)\<close>: to the nearest multiple of \<open>10 ** -n\<close>, a tie to the even one\<close>
  "py_round n x =
     (let y = x * 10 ^ n; f = \<lfloor>y\<rfloor>; d = y - of_int f
      in of_int (if d < 1 / 2 then f else if 1 / 2 < d then f + 1
                 else if even f then f else f + 1) / 10 ^ n)"

definition py_round_int :: "real \<Rightarrow> int" where
  \<comment> \<open>\<open>round(x)\<close> with one argument returns an \<open>int\<close>\<close>
  "py_round_int x =
     (let f = \<lfloor>x\<rfloor>; d = x - of_int f
      in if d < 1 / 2 then f else if 1 / 2 < d then f + 1
         else if even f then f else f + 1)"

subsection \<open>One-dimensional NumPy arrays\<close>

definition np_bcast :: "(real \<Rightarrow> real \<Rightarrow> real) \<Rightarrow> real list \<Rightarrow> real list \<Rightarrow> real list res" where
  \<comment> \<open>an elementwise operation on two 1-d arrays, with NumPy's broadcasting of length 1\<close>
  "np_bcast f xs ys =
     (if length xs = length ys then Ok (map2 f xs ys)
      else if length xs = 1 then Ok (map (f (hd xs)) ys)
      else if length ys = 1 then Ok (map (\<lambda>x. f x (hd ys)) xs)
      else Raise ValueError)"

definition np_mul :: "real list \<Rightarrow> real list \<Rightarrow> real list res" where
  "np_mul = np_bcast (*)"

definition np_recip :: "real list \<Rightarrow> real list res" where
  \<comment> \<open>\<open>1.0 / arr\<close>\<close>
  "np_recip xs = (if 0 \<in> set xs then NotFinite else Ok (map (\<lambda>x. 1 / x) xs))"

definition np_sum :: "real list \<Rightarrow> real" where
  "np_sum xs = sum_list xs"

section \<open>Random-effects meta-analysis (analysis/Python/report\_generator.py)\<close>

record scipy_stats =
  chi2_sf :: "real \<Rightarrow> nat \<Rightarrow> real"
  norm_sf :: "real \<Rightarrow> real"

record meta_estimate =
  m_k :: nat
  m_g_pooled :: real
  m_se_pooled :: real
  m_ci_lower :: real
  m_ci_upper :: real
  m_p_pooled :: "real option"
  m_Q :: real
  m_df_Q :: nat
  m_p_Q :: real
  m_I2 :: real
  m_tau2 :: real
  m_tau :: real
  m_pi_lower :: real
  m_pi_upper :: real

datatype meta_out = MetaError string | MetaEstimate meta_estimate

definition p_values :: "scipy_stats option \<Rightarrow> real \<Rightarrow> nat \<Rightarrow> real \<Rightarrow> real \<Rightarrow> (real \<times> real option) res" where
  \<comment> \<open>the \<open>try: from scipy.stats import chi2, norm ... except ImportError\<close> block;
      \<open>None\<close> is the run without SciPy\<close>
  "p_values scipy Q k g_pooled se_pooled =
     (case scipy of
        Some sp \<Rightarrow>
          thn (py_div g_pooled se_pooled) (\<lambda>z.
          Ok (chi2_sf sp Q (k - 1), Some (2 * norm_sf sp \<bar>z\<bar>)))
      | None \<Rightarrow> Ok (exp (- 0.5 * max 0 (Q - (real k - 1))), None))"

definition random_effects_meta :: "scipy_stats option \<Rightarrow> real list \<Rightarrow> real list \<Rightarrow> meta_out res" where
  "random_effects_meta scipy g se =
     (let k = length g in
      if k = 0 then Ok (MetaError ''No data'')
      else
        let var = map (\<lambda>s. s ^ 2) se in
        thn (np_recip var) (\<lambda>w_fixed.
        thn (np_mul w_fixed g) (\<lambda>wg.
        thn (np_div (np_sum wg) (np_sum w_fixed)) (\<lambda>g_fixed.
        thn (np_mul w_fixed (map (\<lambda>x. (x - g_fixed) ^ 2) g)) (\<lambda>wd.
        let Q = np_sum wd in
        thn (np_div (np_sum (map (\<lambda>w. w ^ 2) w_fixed)) (np_sum w_fixed)) (\<lambda>q.
        let c = np_sum w_fixed - q in
        thn (py_div (Q - (real k - 1)) c) (\<lambda>t.
        let tau2 = max 0 t in
        thn (np_recip (map (\<lambda>v. v + tau2) var)) (\<lambda>w_re.
        thn (np_mul w_re g) (\<lambda>wrg.
        thn (np_div (np_sum wrg) (np_sum w_re)) (\<lambda>g_pooled.
        thn (np_div 1 (np_sum w_re)) (\<lambda>v_pooled.
        thn (np_sqrt v_pooled) (\<lambda>se_pooled.
        let I2 = (if 0 < Q then max 0 ((Q - (real k - 1)) / Q * 100) else 0) in
        thn (p_values scipy Q k g_pooled se_pooled) (\<lambda>(p_Q, p_pooled).
        Ok (MetaEstimate
          \<lparr> m_k = k,
            m_g_pooled = py_round 4 g_pooled,
            m_se_pooled = py_round 4 se_pooled,
            m_ci_lower = py_round 4 (g_pooled - 1.96 * se_pooled),
            m_ci_upper = py_round 4 (g_pooled + 1.96 * se_pooled),
            m_p_pooled = map_option (py_round 4) p_pooled,
            m_Q = py_round 3 Q,
            m_df_Q = k - 1,
            m_p_Q = py_round 4 p_Q,
            m_I2 = py_round 1 I2,
            m_tau2 = py_round 4 tau2,
            m_tau = py_round 4 (sqrt tau2),
            m_pi_lower = py_round 3 (g_pooled - 1.96 * sqrt (se_pooled ^ 2 + tau2)),
            m_pi_upper = py_round 3 (g_pooled + 1.96 * sqrt (se_pooled ^ 2 + tau2)) \<rparr>))))))))))))))"

subsection \<open>The DerSimonian-Laird quantities as the specification writes them\<close>

definition dl_w :: "real list \<Rightarrow> nat \<Rightarrow> real" where
  "dl_w se i = 1 / (se ! i) ^ 2"

definition dl_g_fixed :: "real list \<Rightarrow> real list \<Rightarrow> real" where
  "dl_g_fixed g se = (\<Sum>i<length g. dl_w se i * g ! i) / (\<Sum>i<length g. dl_w se i)"

definition dl_Q :: "real list \<Rightarrow> real list \<Rightarrow> real" where
  "dl_Q g se = (\<Sum>i<length g. dl_w se i * (g ! i - dl_g_fixed g se) ^ 2)"

definition dl_c :: "real list \<Rightarrow> real list \<Rightarrow> real" where
  "dl_c g se = (\<Sum>i<length g. dl_w se i) - (\<Sum>i<length g. (dl_w se i) ^ 2) / (\<Sum>i<length g. dl_w se i)"

definition dl_tau2 :: "real list \<Rightarrow> real list \<Rightarrow> real" where
  "dl_tau2 g se = max 0 ((dl_Q g se - (real (length g) - 1)) / dl_c g se)"

definition dl_w_re :: "real list \<Rightarrow> real list \<Rightarrow> nat \<Rightarrow> real" where
  "dl_w_re g se i = 1 / ((se ! i) ^ 2 + dl_tau2 g se)"

definition dl_g_pooled :: "real list \<Rightarrow> real list \<Rightarrow> real" where
  "dl_g_pooled g se = (\<Sum>i<length g. dl_w_re g se i * g ! i) / (\<Sum>i<length g. dl_w_re g se i)"

definition dl_se_pooled :: "real list \<Rightarrow> real list \<Rightarrow> real" where
  "dl_se_pooled g se = sqrt (1 / (\<Sum>i<length g. dl_w_re g se i))"

definition dl_I2 :: "real list \<Rightarrow> real list \<Rightarrow> real" where
  "dl_I2 g se =
     (if 0 < dl_Q g se then max 0 ((dl_Q g se - (real (length g) - 1)) / dl_Q g se * 100) else 0)"

section \<open>Effect size calculator (scripts/ai\_coding\_pipeline/utils/effect\_size\_calculator.py)\<close>

text \<open>
  A value of the input dictionary: JSON \<open>null\<close>, a boolean, an integer, a float, a text
  that is not a numeral (\<open>float()\<close> and \<open>int()\<close> raise \<open>ValueError\<close> on it) or another
  object such as a list (\<open>TypeError\<close>).
\<close>

datatype pyval = PNone | PBool bool | PInt int | PFloat real | PStr string | PList

type_synonym pydict = "string \<Rightarrow> pyval option"

fun to_float :: "pyval \<Rightarrow> real res" where
  "to_float PNone = Raise TypeError"
| "to_float (PBool b) = Ok (if b then 1 else 0)"
| "to_float (PInt i) = Ok (of_int i)"
| "to_float (PFloat x) = Ok x"
| "to_float (PStr s) = Raise ValueError"
| "to_float PList = Raise TypeError"

fun to_int :: "pyval \<Rightarrow> int res" where
  "to_int PNone = Raise TypeError"
| "to_int (PBool b) = Ok (if b then 1 else 0)"
| "to_int (PInt i) = Ok i"
| "to_int (PFloat x) = Ok (if 0 \<le> x then \<lfloor>x\<rfloor> else \<lceil>x\<rceil>)"
| "to_int (PStr s) = Raise ValueError"
| "to_int PList = Raise TypeError"

fun num_of :: "pyval \<Rightarrow> real res" where
  \<comment> \<open>the value of an operand of \<open><\<close>, \<open>+\<close> or \<open>min\<close> against a number\<close>
  "num_of (PBool b) = Ok (if b then 1 else 0)"
| "num_of (PInt i) = Ok (of_int i)"
| "num_of (PFloat x) = Ok x"
| "num_of v = Raise TypeError"

fun floordiv2 :: "pyval \<Rightarrow> pyval res" where
  \<comment> \<open>\<open>v // 2\<close>\<close>
  "floordiv2 (PBool b) = Ok (PInt 0)"
| "floordiv2 (PInt i) = Ok (PInt (i div 2))"
| "floordiv2 (PFloat x) = Ok (PFloat (of_int \<lfloor>x / 2\<rfloor>))"
| "floordiv2 v = Raise TypeError"

definition subscript :: "pydict \<Rightarrow> string \<Rightarrow> pyval res" where
  \<comment> \<open>\<open>data[key]\<close>\<close>
  "subscript data key = (case data key of None \<Rightarrow> Raise (KeyError key) | Some v \<Rightarrow> Ok v)"

definition get_default :: "pydict \<Rightarrow> string \<Rightarrow> pyval \<Rightarrow> pyval" where
  \<comment> \<open>\<open>data.get(key, default)\<close>\<close>
  "get_default data key dflt = (case data key of None \<Rightarrow> dflt | Some v \<Rightarrow> v)"

text \<open>
  The argument \<open>d\<close> of \<open>cohens_d_to_hedges_g\<close> is a Python float on the direct path and a
  NumPy float64 when it comes out of \<open>np.sqrt\<close>: \<open>g**2 / (2 * n_total)\<close> raises on a zero
  divisor in the first case and yields \<open>inf\<close> or \<open>nan\<close> in the second.
\<close>

datatype scalar = PyFloat real | NpFloat real

fun sval :: "scalar \<Rightarrow> real" where
  "sval (PyFloat x) = x"
| "sval (NpFloat x) = x"

fun scalar_div :: "scalar \<Rightarrow> real \<Rightarrow> real \<Rightarrow> real res" where
  \<comment> \<open>\<open>a / b\<close> where \<open>a\<close> has the kind of the given scalar and \<open>b\<close> is a Python number\<close>
  "scalar_div (PyFloat _) a b = py_div a b"
| "scalar_div (NpFloat _) a b = np_div a b"

definition cohens_d_to_hedges_g :: "scalar \<Rightarrow> int \<Rightarrow> int \<Rightarrow> (real \<times> real) res" where
  \<comment> \<open>\<open>4 * df - 1\<close> is an odd integer, so \<open>3 / (4 * df - 1)\<close> never divides by zero\<close>
  "cohens_d_to_hedges_g d n1 n2 =
     (let df = n1 + n2 - 2;
          j = 1 - 3 / of_int (4 * df - 1);
          g = sval d * j;
          n_total = n1 + n2
      in thn (py_div (of_int n_total) (of_int (n1 * n2))) (\<lambda>a.
         thn (scalar_div d (g ^ 2) (of_int (2 * n_total))) (\<lambda>b.
         thn (np_sqrt (a + b)) (\<lambda>se_g.
         Ok (g, se_g)))))"

definition means_to_hedges_g :: "real \<Rightarrow> real \<Rightarrow> real \<Rightarrow> real \<Rightarrow> int \<Rightarrow> int \<Rightarrow> (real \<times> real) res" where
  "means_to_hedges_g m1 m2 sd1 sd2 n1 n2 =
     (let df1 = n1 - 1; df2 = n2 - 1
      in thn (py_div (of_int df1 * sd1 ^ 2 + of_int df2 * sd2 ^ 2) (of_int (df1 + df2))) (\<lambda>v.
         thn (np_sqrt v) (\<lambda>pooled_sd.
         thn (np_div (m1 - m2) pooled_sd) (\<lambda>d.
         cohens_d_to_hedges_g (NpFloat d) n1 n2))))"

definition prepost_to_hedges_g :: "real \<Rightarrow> real \<Rightarrow> real \<Rightarrow> real \<Rightarrow> int \<Rightarrow> real \<Rightarrow> (real \<times> real) res" where
  "prepost_to_hedges_g m_pre m_post sd_pre sd_post n r =
     (let sd_avg = (sd_pre + sd_post) / 2
      in thn (py_div (m_post - m_pre) sd_avg) (\<lambda>d.
         let df = n - 1;
             j = 1 - 3 / of_int (4 * df - 1);
             g = d * j
         in thn (py_div (2 * (1 - r)) (of_int n)) (\<lambda>a.
            thn (py_div (g ^ 2) (of_int (2 * n))) (\<lambda>b.
            thn (np_sqrt (a + b)) (\<lambda>se_g.
            Ok (g, se_g))))))"

definition t_to_hedges_g :: "real \<Rightarrow> int \<Rightarrow> int \<Rightarrow> (real \<times> real) res" where
  "t_to_hedges_g t n1 n2 =
     thn (py_div (of_int (n1 + n2)) (of_int (n1 * n2))) (\<lambda>q.
     thn (np_sqrt q) (\<lambda>s.
     cohens_d_to_hedges_g (NpFloat (t * s)) n1 n2))"

definition f_to_hedges_g :: "real \<Rightarrow> int \<Rightarrow> int \<Rightarrow> (real \<times> real) res" where
  "f_to_hedges_g f n1 n2 = thn (np_sqrt f) (\<lambda>t. t_to_hedges_g t n1 n2)"

definition r_to_hedges_g :: "real \<Rightarrow> int \<Rightarrow> (real \<times> real) res" where
  "r_to_hedges_g r n =
     thn (np_sqrt (1 - r ^ 2)) (\<lambda>s.
     thn (np_div (2 * r) s) (\<lambda>d.
     let n1 = n div 2; n2 = n div 2
     in cohens_d_to_hedges_g (NpFloat d) n1 n2))"

definition hedges_g_variance :: "real \<Rightarrow> int \<Rightarrow> int \<Rightarrow> real res" where
  "hedges_g_variance g n1 n2 =
     (let n_total = n1 + n2
      in thn (py_div (of_int n_total) (of_int (n1 * n2))) (\<lambda>a.
         thn (py_div (g ^ 2) (of_int (2 * n_total))) (\<lambda>b.
         Ok (a + b))))"

datatype issue =
    EffectSizeExceeds real real
  | Group1Below pyval int
  | Group2Below pyval int
  | IssueText string
  | ExtractionFailed py_error

datatype warning = SEUnusuallySmall real | SEUnusuallyLarge real

record validation =
  v_valid :: bool
  v_issues :: "issue list"
  v_warnings :: "warning list"
  v_g :: real
  v_se :: real
  v_ci_95 :: "real \<times> real"
  v_n1 :: pyval
  v_n2 :: pyval

definition np_sqrt_nan :: "real \<Rightarrow> real option" where
  \<comment> \<open>\<open>np.sqrt\<close> whose result is only compared: \<open>None\<close> is \<open>nan\<close>, every comparison with it is false\<close>
  "np_sqrt_nan x = (if x < 0 then None else Some (sqrt x))"

definition validate_effect_size :: "real \<Rightarrow> real \<Rightarrow> pyval \<Rightarrow> pyval \<Rightarrow> real \<Rightarrow> int \<Rightarrow> validation res" where
  "validate_effect_size g se n1 n2 max_g min_n =
     (let issues = (if \<bar>g\<bar> > max_g then [EffectSizeExceeds \<bar>g\<bar> max_g] else [])
      in thn (num_of n1) (\<lambda>x1.
         let issues = issues @ (if x1 < of_int min_n then [Group1Below n1 min_n] else [])
         in thn (num_of n2) (\<lambda>x2.
            let issues = issues @ (if x2 < of_int min_n then [Group2Below n2 min_n] else [])
            in thn (py_div 2 (x1 + x2)) (\<lambda>a.
               let expected_min_se = np_sqrt_nan a;
                   warnings = (case expected_min_se of
                                 Some m \<Rightarrow> if se < m * 0.5 then [SEUnusuallySmall se] else []
                               | None \<Rightarrow> [])
               in thn (py_div 4 (min x1 x2)) (\<lambda>b.
                  let expected_max_se = np_sqrt_nan b;
                      warnings = warnings @ (case expected_max_se of
                                   Some m \<Rightarrow> if se > m then [SEUnusuallyLarge se] else []
                                 | None \<Rightarrow> []);
                      ci_lower = g - 1.96 * se;
                      ci_upper = g + 1.96 * se
                  in Ok \<lparr> v_valid = (length issues = 0),
                          v_issues = issues,
                          v_warnings = warnings,
                          v_g = g,
                          v_se = se,
                          v_ci_95 = (ci_lower, ci_upper),
                          v_n1 = n1,
                          v_n2 = n2 \<rparr>)))))"

record es_result =
  r_g :: "real option"
  r_se :: "real option"
  r_method :: "string option"
  r_valid :: bool
  r_issues :: "issue list"
  r_warnings :: "warning list option"
  r_ci_95 :: "(real \<times> real) option"
  r_n1 :: "pyval option"
  r_n2 :: "pyval option"

definition has_keys :: "pydict \<Rightarrow> string list \<Rightarrow> bool" where
  \<comment> \<open>\<open>all(k in data for k in keys)\<close>\<close>
  "has_keys data ks = list_all (\<lambda>k. data k \<noteq> None) ks"

definition not_none :: "pydict \<Rightarrow> string \<Rightarrow> bool" where
  \<comment> \<open>\<open>key in data and data[key] is not None\<close>\<close>
  "not_none data key = (case data key of None \<Rightarrow> False | Some v \<Rightarrow> v \<noteq> PNone)"

definition float_of_key :: "pydict \<Rightarrow> string \<Rightarrow> real res" where
  \<comment> \<open>\<open>float(data[key])\<close>\<close>
  "float_of_key data key = thn (subscript data key) to_float"

definition int_of_key :: "pydict \<Rightarrow> string \<Rightarrow> int res" where
  \<comment> \<open>\<open>int(data[key])\<close>\<close>
  "int_of_key data key = thn (subscript data key) to_int"

definition case_direct :: "pydict \<Rightarrow> (real \<times> real \<times> string) res" where
  "case_direct data =
     thn (float_of_key data ''hedges_g'') (\<lambda>g.
     thn (to_float (get_default data ''se_g'' (get_default data ''se'' (PInt 0)))) (\<lambda>se.
     if se = 0 \<and> data ''n1'' \<noteq> None \<and> data ''n2'' \<noteq> None then
       thn (int_of_key data ''n1'') (\<lambda>n1.
       thn (int_of_key data ''n2'') (\<lambda>n2.
       thn (hedges_g_variance g n1 n2) (\<lambda>v.
       thn (np_sqrt v) (\<lambda>se.
       Ok (g, se, ''direct_hedges_g'')))))
     else Ok (g, se, ''direct_hedges_g'')))"

definition case_cohens_d :: "pydict \<Rightarrow> (real \<times> real \<times> string) res" where
  "case_cohens_d data =
     thn (float_of_key data ''cohens_d'') (\<lambda>d.
     thn (int_of_key data ''n1'') (\<lambda>n1.
     thn (int_of_key data ''n2'') (\<lambda>n2.
     thn (cohens_d_to_hedges_g (PyFloat d) n1 n2) (\<lambda>(g, se).
     Ok (g, se, ''cohen_d_conversion'')))))"

definition case_means :: "pydict \<Rightarrow> (real \<times> real \<times> string) res" where
  "case_means data =
     thn (float_of_key data ''m1'') (\<lambda>m1.
     thn (float_of_key data ''m2'') (\<lambda>m2.
     thn (float_of_key data ''sd1'') (\<lambda>sd1.
     thn (float_of_key data ''sd2'') (\<lambda>sd2.
     thn (int_of_key data ''n1'') (\<lambda>n1.
     thn (int_of_key data ''n2'') (\<lambda>n2.
     thn (means_to_hedges_g m1 m2 sd1 sd2 n1 n2) (\<lambda>(g, se).
     Ok (g, se, ''means_sds''))))))))"

definition case_prepost :: "pydict \<Rightarrow> (real \<times> real \<times> string) res" where
  "case_prepost data =
     thn (float_of_key data ''m_pre'') (\<lambda>m_pre.
     thn (float_of_key data ''m_post'') (\<lambda>m_post.
     thn (float_of_key data ''sd_pre'') (\<lambda>sd_pre.
     thn (float_of_key data ''sd_post'') (\<lambda>sd_post.
     thn (int_of_key data ''n'') (\<lambda>n.
     thn (to_float (get_default data ''r_prepost'' (PFloat 0.5))) (\<lambda>r.
     thn (prepost_to_hedges_g m_pre m_post sd_pre sd_post n r) (\<lambda>(g, se).
     Ok (g, se, ''prepost''))))))))"

definition case_t :: "pydict \<Rightarrow> (real \<times> real \<times> string) res" where
  "case_t data =
     thn (float_of_key data ''t'') (\<lambda>t.
     thn (int_of_key data ''n1'') (\<lambda>n1.
     thn (int_of_key data ''n2'') (\<lambda>n2.
     thn (t_to_hedges_g t n1 n2) (\<lambda>(g, se).
     Ok (g, se, ''t_statistic'')))))"

definition case_f :: "pydict \<Rightarrow> (real \<times> real \<times> string) res" where
  "case_f data =
     thn (float_of_key data ''f'') (\<lambda>f.
     thn (int_of_key data ''n1'') (\<lambda>n1.
     thn (int_of_key data ''n2'') (\<lambda>n2.
     thn (f_to_hedges_g f n1 n2) (\<lambda>(g, se).
     Ok (g, se, ''f_statistic'')))))"

definition case_r :: "pydict \<Rightarrow> (real \<times> real \<times> string) res" where
  "case_r data =
     thn (float_of_key data ''r'') (\<lambda>r.
     thn (int_of_key data ''n'') (\<lambda>n.
     thn (r_to_hedges_g r n) (\<lambda>(g, se).
     Ok (g, se, ''correlation''))))"

definition convert :: "pydict \<Rightarrow> (real \<times> real \<times> string) option res" where
  \<comment> \<open>the \<open>if\<close>/\<open>elif\<close> chain of \<open>extract_effect_size\<close>; \<open>Ok None\<close> is its \<open>else\<close> branch\<close>
  "convert data =
     (if not_none data ''hedges_g'' then thn (case_direct data) (\<lambda>x. Ok (Some x))
      else if not_none data ''cohens_d'' then thn (case_cohens_d data) (\<lambda>x. Ok (Some x))
      else if has_keys data [''m1'', ''m2'', ''sd1'', ''sd2'', ''n1'', ''n2'']
        then thn (case_means data) (\<lambda>x. Ok (Some x))
      else if has_keys data [''m_pre'', ''m_post'', ''sd_pre'', ''sd_post'', ''n'']
        then thn (case_prepost data) (\<lambda>x. Ok (Some x))
      else if has_keys data [''t'', ''n1'', ''n2''] then thn (case_t data) (\<lambda>x. Ok (Some x))
      else if has_keys data [''f'', ''n1'', ''n2''] then thn (case_f data) (\<lambda>x. Ok (Some x))
      else if has_keys data [''r'', ''n''] then thn (case_r data) (\<lambda>x. Ok (Some x))
      else Ok None)"

definition validate_step :: "pydict \<Rightarrow> real \<Rightarrow> real \<Rightarrow> validation res" where
  \<comment> \<open>the block under \<open># Validate\<close>; the default \<open>data.get('n', 0) // 2\<close> is evaluated
      whether or not \<open>n1\<close> and \<open>n2\<close> are present\<close>
  "validate_step data g se =
     thn (floordiv2 (get_default data ''n'' (PInt 0))) (\<lambda>h1.
     let n1 = get_default data ''n1'' h1
     in thn (floordiv2 (get_default data ''n'' (PInt 0))) (\<lambda>h2.
        let n2 = get_default data ''n2'' h2
        in validate_effect_size g se n1 n2 5.0 10))"

definition initial_result :: es_result where
  "initial_result =
     \<lparr> r_g = None, r_se = None, r_method = None, r_valid = False, r_issues = [],
       r_warnings = None, r_ci_95 = None, r_n1 = None, r_n2 = None \<rparr>"

definition caught :: "es_result \<Rightarrow> py_error \<Rightarrow> es_result" where
  \<comment> \<open>the \<open>except Exception as e\<close> handler\<close>
  "caught result e = result\<lparr>r_issues := r_issues result @ [ExtractionFailed e]\<rparr>"

definition update_validation :: "es_result \<Rightarrow> validation \<Rightarrow> es_result" where
  \<comment> \<open>\<open>result.update(validation)\<close>\<close>
  "update_validation result v =
     result\<lparr> r_valid := v_valid v, r_issues := v_issues v, r_warnings := Some (v_warnings v),
             r_g := Some (v_g v), r_se := Some (v_se v), r_ci_95 := Some (v_ci_95 v),
             r_n1 := Some (v_n1 v), r_n2 := Some (v_n2 v) \<rparr>"

definition extract_effect_size :: "pydict \<Rightarrow> es_result res" where
  "extract_effect_size data =
     (let result = initial_result
      in case convert data of
           Raise e \<Rightarrow> Ok (caught result e)
         | NotFinite \<Rightarrow> NotFinite
         | Ok None \<Rightarrow>
             Ok (result\<lparr>r_issues := r_issues result @
                   [IssueText ''No recognized effect size format found'']\<rparr>)
         | Ok (Some (g, se, method)) \<Rightarrow>
             let result = result\<lparr>r_g := Some g, r_se := Some se, r_method := Some method\<rparr>
             in (case validate_step data g se of
                   Raise e \<Rightarrow> Ok (caught result e)
                 | NotFinite \<Rightarrow> NotFinite
                 | Ok v \<Rightarrow> Ok (update_validation result v)))"

subsection \<open>The conversion chain as the specification writes it\<close>

definition hedges_J :: "int \<Rightarrow> int \<Rightarrow> real" where
  \<comment> \<open>\<open>J = 1 - 3 / (4 * (n1 + n2 - 2) - 1)\<close>\<close>
  "hedges_J n1 n2 = 1 - 3 / (4 * (of_int n1 + of_int n2 - 2) - 1)"

definition t_to_d :: "real \<Rightarrow> int \<Rightarrow> int \<Rightarrow> real res" where
  \<comment> \<open>\<open>d = t * sqrt((n1 + n2) / (n1 * n2))\<close>\<close>
  "t_to_d t n1 n2 =
     thn (py_div (of_int (n1 + n2)) (of_int (n1 * n2))) (\<lambda>q.
     thn (np_sqrt q) (\<lambda>s. Ok (t * s)))"

definition pooled_sd :: "real \<Rightarrow> real \<Rightarrow> int \<Rightarrow> int \<Rightarrow> real res" where
  \<comment> \<open>\<open>sqrt(((n1 - 1) * sd1\<^sup>2 + (n2 - 1) * sd2\<^sup>2) / (n1 + n2 - 2))\<close>\<close>
  "pooled_sd sd1 sd2 n1 n2 =
     thn (py_div (of_int (n1 - 1) * sd1 ^ 2 + of_int (n2 - 1) * sd2 ^ 2) (of_int (n1 + n2 - 2)))
       np_sqrt"

definition means_to_d :: "real \<Rightarrow> real \<Rightarrow> real \<Rightarrow> real \<Rightarrow> int \<Rightarrow> int \<Rightarrow> real res" where
  \<comment> \<open>\<open>d = (m1 - m2) / pooled_sd\<close>\<close>
  "means_to_d m1 m2 sd1 sd2 n1 n2 = thn (pooled_sd sd1 sd2 n1 n2) (\<lambda>p. np_div (m1 - m2) p)"

subsection \<open>The dispatch policy as the specification writes it\<close>

definition shape_priority :: "string list" where
  \<comment> \<open>direct g, Cohen's d, means/SDs, pre-post, t, F, r\<close>
  "shape_priority =
     [''direct_hedges_g'', ''cohen_d_conversion'', ''means_sds'', ''prepost'',
      ''t_statistic'', ''f_statistic'', ''correlation'']"

definition shape_present :: "pydict \<Rightarrow> string \<Rightarrow> bool" where
  \<comment> \<open>the field-presence check of a shape\<close>
  "shape_present data m =
     (if m = ''direct_hedges_g'' then not_none data ''hedges_g''
      else if m = ''cohen_d_conversion'' then not_none data ''cohens_d''
      else if m = ''means_sds'' then has_keys data [''m1'', ''m2'', ''sd1'', ''sd2'', ''n1'', ''n2'']
      else if m = ''prepost'' then has_keys data [''m_pre'', ''m_post'', ''sd_pre'', ''sd_post'', ''n'']
      else if m = ''t_statistic'' then has_keys data [''t'', ''n1'', ''n2'']
      else if m = ''f_statistic'' then has_keys data [''f'', ''n1'', ''n2'']
      else if m = ''correlation'' then has_keys data [''r'', ''n'']
      else False)"

definition recognized_shape :: "pydict \<Rightarrow> string option" where
  \<comment> \<open>the first shape, in priority order, whose fields are present\<close>
  "recognized_shape data = find (shape_present data) shape_priority"

definition conversion_of :: "string \<Rightarrow> pydict \<Rightarrow> (real \<times> real \<times> string) res" where
  "conversion_of m data =
     (if m = ''direct_hedges_g'' then case_direct data
      else if m = ''cohen_d_conversion'' then case_cohens_d data
      else if m = ''means_sds'' then case_means data
      else if m = ''prepost'' then case_prepost data
      else if m = ''t_statistic'' then case_t data
      else if m = ''f_statistic'' then case_f data
      else case_r data)"



definition raises :: "'a res \<Rightarrow> bool" where
  "raises m = (case m of Raise e \<Rightarrow> True | Ok x \<Rightarrow> False | NotFinite \<Rightarrow> False)"

definition is_failure_issue :: "issue \<Rightarrow> bool" where
  "is_failure_issue i =
     (case i of IssueText s \<Rightarrow> True | ExtractionFailed e \<Rightarrow> True
      | EffectSizeExceeds a b \<Rightarrow> False | Group1Below v n \<Rightarrow> False | Group2Below v n \<Rightarrow> False)"

definition extraction_failed :: "es_result \<Rightarrow> bool" where
  \<comment> \<open>no shape was recognized, or an exception was caught\<close>
  "extraction_failed r = list_ex is_failure_issue (r_issues r)"

definition se_kept :: "pydict \<Rightarrow> bool" where
  \<comment> \<open>the direct-g branch returns the supplied \<open>se_g\<close>/\<open>se\<close> (or the default 0) as it is\<close>
  "se_kept data =
     (not_none data ''hedges_g'' \<and>
      \<not> (to_float (get_default data ''se_g'' (get_default data ''se'' (PInt 0))) = Ok 0 \<and>
         data ''n1'' \<noteq> None \<and> data ''n2'' \<noteq> None))"

definition prepost_r_below_one :: "pydict \<Rightarrow> bool" where
  \<comment> \<open>\<open>float(data.get('r_prepost', 0.5)) < 1\<close>\<close>
  "prepost_r_below_one data =
     (case to_float (get_default data ''r_prepost'' (PFloat 0.5)) of
        Ok rp \<Rightarrow> rp < 1 | Raise e \<Rightarrow> False | NotFinite \<Rightarrow> False)"

subsection \<open>Example inputs\<close>

definition ex_missing :: pydict where
  "ex_missing = [''cohens_d'' \<mapsto> PFloat (1 / 2)]"

definition ex_total_n :: pydict where
  \<comment> \<open>\<open>{'hedges_g': 0.5, 'n': 50}\<close>\<close>
  "ex_total_n = [''hedges_g'' \<mapsto> PFloat (1 / 2), ''n'' \<mapsto> PInt 50]"

definition ex_d :: pydict where
  \<comment> \<open>\<open>{'cohens_d': 0, 'n1': 64, 'n2': 98}\<close>\<close>
  "ex_d = [''cohens_d'' \<mapsto> PInt 0, ''n1'' \<mapsto> PInt 64, ''n2'' \<mapsto> PInt 98]"

section \<open>Quality gates (scripts/ai\_coding\_pipeline/phase6\_qa\_final.py)\<close>

text \<open>
  One row of the data frame built by \<open>load_consensus_data\<close>. A cell that pandas holds as
  \<open>None\<close> or \<open>NaN\<close> is \<open>None\<close> here: both are \<open>isna()\<close>, and a comparison with either is
  false or guarded by \<open>is not None\<close>. Text columns hold ASCII text.
\<close>

record row =
  study_id :: string
  outcome_label :: string
  hedges_g :: "real option"
  se_g :: "real option"
  n_models_agree :: nat
  consensus_quality :: string
  flag :: "string option"
  design_type :: "string option"
  n_treatment :: "real option"
  n_control :: "real option"
  n_total :: "real option"
  outcome_type :: "string option"
  learning_domain :: string
  country :: string
  education_level :: string
  oversight_level :: "string option"
  architecture :: "string option"
  agency_level :: "string option"
  agent_role :: "string option"
  modality :: "string option"
  technology :: "string option"
  adaptivity :: "string option"

type_synonym frame = "row list"

record quality_targets =
  max_effect_size :: real
  min_sample_size :: real

definition default_targets :: quality_targets where
  \<comment> \<open>the defaults of \<open>quality_targets.get('max_effect_size', 5.0)\<close> and
      \<open>quality_targets.get('min_sample_size', 10)\<close>\<close>
  "default_targets = \<lparr> max_effect_size = 5, min_sample_size = 10 \<rparr>"

definition VALID_DESIGNS :: "string list" where
  "VALID_DESIGNS =
     [''randomized_controlled_trial'', ''rct'', ''quasi_experimental'', ''pre_post'',
      ''pretest_posttest'']"

definition VALID_OUTCOME_TYPES :: "string list" where
  "VALID_OUTCOME_TYPES =
     [''learning_outcome'', ''achievement'', ''performance'', ''test_score'', ''knowledge'',
      ''skill'', ''competency'', ''grade'']"

definition lower_char :: "char \<Rightarrow> char" where
  "lower_char c =
     (let n = (of_char c :: nat) in if 65 \<le> n \<and> n \<le> 90 then char_of (n + 32) else c)"

definition lower :: "string \<Rightarrow> string" where
  \<comment> \<open>\<open>str.lower()\<close> on ASCII text\<close>
  "lower s = map lower_char s"

definition starts_with :: "string \<Rightarrow> string \<Rightarrow> bool" where
  "starts_with sub s = (take (length sub) s = sub)"

fun contains :: "string \<Rightarrow> string \<Rightarrow> bool" where
  \<comment> \<open>\<open>sub in s\<close>\<close>
  "contains sub [] = (sub = [])"
| "contains sub (c # cs) = (starts_with sub (c # cs) \<or> contains sub cs)"

definition unique :: "'a list \<Rightarrow> 'a list" where
  \<comment> \<open>\<open>Series.unique()\<close>: the distinct values in order of first appearance\<close>
  "unique xs = rev (remdups (rev xs))"

definition first_row :: "frame \<Rightarrow> string \<Rightarrow> row option" where
  \<comment> \<open>\<open>df[df['study_id'] == study_id].iloc[0]\<close>\<close>
  "first_row df sid = find (\<lambda>r. study_id r = sid) df"

definition drop_duplicates_study :: "frame \<Rightarrow> frame" where
  \<comment> \<open>\<open>df.drop_duplicates('study_id')\<close>: the first row of every study\<close>
  "drop_duplicates_study df = List.map_filter (first_row df) (unique (map study_id df))"

definition notna_g :: "frame \<Rightarrow> real list" where
  \<comment> \<open>the non-null values of the column \<open>hedges_g\<close>\<close>
  "notna_g df = List.map_filter hedges_g df"

definition col_min :: "real list \<Rightarrow> real option" where
  "col_min xs = (if xs = [] then None else Some (Min (set xs)))"

definition col_max :: "real list \<Rightarrow> real option" where
  "col_max xs = (if xs = [] then None else Some (Max (set xs)))"

definition col_median :: "real list \<Rightarrow> real option" where
  "col_median xs =
     (let ys = sort xs; n = length ys
      in if n = 0 then None
         else if odd n then Some (ys ! (n div 2))
         else Some ((ys ! (n div 2 - 1) + ys ! (n div 2)) / 2))"

definition col_mean :: "real list \<Rightarrow> real option" where
  "col_mean xs = (if xs = [] then None else Some (sum_list xs / real (length xs)))"

definition col_std :: "real list \<Rightarrow> real option" where
  \<comment> \<open>\<open>Series.std()\<close>: the sample standard deviation, \<open>NaN\<close> below two values\<close>
  "col_std xs =
     (if length xs < 2 then None
      else let m = sum_list xs / real (length xs)
           in Some (sqrt (sum_list (map (\<lambda>x. (x - m) ^ 2) xs) / (real (length xs) - 1))))"

subsection \<open>The diagnostics of the gates\<close>

record gate1_details =
  max_allowed :: real
  n_out_of_range :: nat
  n_valid :: nat
  g_min :: "real option"
  g_max :: "real option"
  g_median :: "real option"
  flagged_entries :: "(string \<times> string \<times> real option) list"

datatype size_issue =
    TotalBelow string real real
  | TreatmentBelow string real real
  | ControlBelow string real real

record gate2_details =
  min_n_per_group :: real
  n_studies_checked :: nat
  n_issues :: nat
  issues :: "size_issue list"

record gate3_details =
  valid_designs :: "string list"
  n_invalid_design :: nat
  n_missing_design :: nat
  invalid_studies :: "(string \<times> string option) list"
  missing_design_studies :: "string list"

record gate4_details =
  valid_outcome_types :: "string list"
  n_invalid :: nat
  n_missing :: nat
  invalid_outcomes :: "(string \<times> string option) list"
  missing_outcome_studies :: "string list"

record gate5_details =
  required_fields :: "string list"
  n_incomplete_fields :: nat
  incomplete_fields :: "(string \<times> nat \<times> string list) list"
  total_rows :: nat

record gate6_details =
  n_duplicate_rows :: nat
  n_duplicate_groups :: nat
  duplicates :: "((string \<times> string) \<times> nat) list"

datatype details =
    D1 gate1_details | D2 gate2_details | D3 gate3_details
  | D4 gate4_details | D5 gate5_details | D6 gate6_details

text \<open>
  The checker's state: the data frame it is given (shared by reference with the caller)
  and the audit log its gates write to. \<open>set_order\<close> is the order in which this Python
  process iterates a set of strings (\<open>list(VALID_DESIGNS)\<close>); it is fixed for the lifetime
  of the process.
\<close>

record qa_state =
  frame_of :: frame
  audit_log :: "(string \<times> bool \<times> details) list"

record qa_env =
  targets :: quality_targets
  set_order :: "string list \<Rightarrow> string list"

definition log_quality_check :: "string \<Rightarrow> bool \<Rightarrow> details \<Rightarrow> qa_state \<Rightarrow> qa_state" where
  "log_quality_check name passed d st = st\<lparr>audit_log := audit_log st @ [(name, passed, d)]\<rparr>"

subsection \<open>Gate 1: effect size range\<close>

definition gate1_check :: "qa_env \<Rightarrow> frame \<Rightarrow> bool \<times> gate1_details" where
  "gate1_check env df =
     (let max_g = max_effect_size (targets env);
          out_of_range = filter (\<lambda>r. case hedges_g r of None \<Rightarrow> False | Some g \<Rightarrow> \<bar>g\<bar> > max_g) df;
          passed = (length out_of_range = 0)
      in (passed,
          \<lparr> max_allowed = max_g,
            n_out_of_range = length out_of_range,
            n_valid = length (notna_g df),
            g_min = (if df \<noteq> [] then col_min (notna_g df) else None),
            g_max = (if df \<noteq> [] then col_max (notna_g df) else None),
            g_median = (if df \<noteq> [] then col_median (notna_g df) else None),
            flagged_entries = map (\<lambda>r. (study_id r, outcome_label r, hedges_g r)) out_of_range \<rparr>))"

subsection \<open>Gate 2: sample size\<close>

definition is_prepost :: "row \<Rightarrow> bool" where
  \<comment> \<open>\<open>design = str(study_df.get('design_type', '')).lower()\<close>, with \<open>str(None) = 'None'\<close>;
      then \<open>'pre' in design or 'post' in design\<close>\<close>
  "is_prepost r =
     (let design = lower (case design_type r of None \<Rightarrow> ''None'' | Some s \<Rightarrow> s)
      in contains ''pre'' design \<or> contains ''post'' design)"

definition study_issues :: "real \<Rightarrow> string \<Rightarrow> row \<Rightarrow> size_issue list" where
  \<comment> \<open>the body of the loop over the studies\<close>
  "study_issues min_n sid r =
     (if is_prepost r then
        (case n_total r of
           Some n \<Rightarrow> if n < min_n * 2 then [TotalBelow sid n (min_n * 2)] else []
         | None \<Rightarrow> [])
      else
        (case n_treatment r of
           Some n \<Rightarrow> if n < min_n then [TreatmentBelow sid n min_n] else []
         | None \<Rightarrow> []) @
        (case n_control r of
           Some n \<Rightarrow> if n < min_n then [ControlBelow sid n min_n] else []
         | None \<Rightarrow> []))"

definition gate2_check :: "qa_env \<Rightarrow> frame \<Rightarrow> bool \<times> gate2_details" where
  "gate2_check env df =
     (let min_n = min_sample_size (targets env);
          issues = concat (map (\<lambda>sid. case first_row df sid of
                                         None \<Rightarrow> []
                                       | Some r \<Rightarrow> study_issues min_n sid r)
                               (unique (map study_id df)));
          passed = (length issues = 0)
      in (passed,
          \<lparr> min_n_per_group = min_n,
            n_studies_checked = length (unique (map study_id df)),
            n_issues = length issues,
            issues = issues \<rparr>))"

subsection \<open>Gates 3 and 4: vocabularies\<close>

definition in_vocabulary :: "string list \<Rightarrow> string option \<Rightarrow> bool" where
  \<comment> \<open>\<open>col.str.lower().isin(vocabulary)\<close>\<close>
  "in_vocabulary voc v = (case v of None \<Rightarrow> False | Some s \<Rightarrow> lower s \<in> set voc)"

definition blank :: "string option \<Rightarrow> bool" where
  \<comment> \<open>\<open>col.isna() | (col == '')\<close>\<close>
  "blank v = (v = None \<or> v = Some '''')"

definition gate3_check :: "qa_env \<Rightarrow> frame \<Rightarrow> bool \<times> gate3_details" where
  "gate3_check env df =
     (let study_designs = map (\<lambda>r. (study_id r, design_type r)) (drop_duplicates_study df);
          invalid = filter (\<lambda>(sid, d). \<not> in_vocabulary VALID_DESIGNS d \<and> d \<noteq> None \<and> d \<noteq> Some '''')
                      study_designs;
          missing_design = filter (\<lambda>(sid, d). blank d) study_designs;
          passed = (length invalid = 0 \<and> length missing_design = 0)
      in (passed,
          \<lparr> valid_designs = set_order env VALID_DESIGNS,
            n_invalid_design = length invalid,
            n_missing_design = length missing_design,
            invalid_studies = invalid,
            missing_design_studies = map fst missing_design \<rparr>))"

definition gate4_check :: "qa_env \<Rightarrow> frame \<Rightarrow> bool \<times> gate4_details" where
  "gate4_check env df =
     (let study_outcomes = map (\<lambda>r. (study_id r, outcome_type r)) (drop_duplicates_study df);
          invalid = filter (\<lambda>(sid, d). \<not> in_vocabulary VALID_OUTCOME_TYPES d \<and> d \<noteq> None \<and>
                                        d \<noteq> Some '''')
                      study_outcomes;
          missing = filter (\<lambda>(sid, d). blank d) study_outcomes;
          passed = (length invalid = 0 \<and> length missing = 0)
      in (passed,
          \<lparr> valid_outcome_types = set_order env VALID_OUTCOME_TYPES,
            n_invalid = length invalid,
            n_missing = length missing,
            invalid_outcomes = invalid,
            missing_outcome_studies = map fst missing \<rparr>))"

subsection \<open>Gate 5: completeness\<close>

definition field_isna :: "string \<Rightarrow> row \<Rightarrow> bool" where
  \<comment> \<open>\<open>df[field].isna()\<close> for the required fields, all of them columns of the frame\<close>
  "field_isna f r =
     (if f = ''hedges_g'' then hedges_g r = None
      else if f = ''se_g'' then se_g r = None
      else if f = ''design_type'' then design_type r = None
      else if f = ''outcome_type'' then outcome_type r = None
      else if f = ''oversight_level'' then oversight_level r = None
      else if f = ''architecture'' then architecture r = None
      else if f = ''agency_level'' then agency_level r = None
      else True)"

definition gate5_check :: "qa_env \<Rightarrow> frame \<Rightarrow> bool \<times> gate5_details" where
  "gate5_check env df =
     (let required = [''hedges_g'', ''se_g'', ''design_type'', ''outcome_type'',
                      ''oversight_level'', ''architecture'', ''agency_level''];
          incomplete = concat (map (\<lambda>f.
                         let missing = filter (field_isna f) df
                         in if length missing > 0
                            then [(f, length missing, take 10 (unique (map study_id missing)))]
                            else []) required);
          passed = (length incomplete = 0)
      in (passed,
          \<lparr> required_fields = required,
            n_incomplete_fields = length incomplete,
            incomplete_fields = incomplete,
            total_rows = length df \<rparr>))"

subsection \<open>Gate 6: duplicates\<close>

definition row_key :: "row \<Rightarrow> string \<times> string" where
  "row_key r = (study_id r, outcome_label r)"

definition gate6_check :: "qa_env \<Rightarrow> frame \<Rightarrow> bool \<times> gate6_details" where
  \<comment> \<open>\<open>groupby\<close> lists the groups in the sorted order of their keys\<close>
  "gate6_check env df =
     (let keys = map row_key df;
          duplicates = filter (\<lambda>r. count_list keys (row_key r) > 1) df;
          passed = (length duplicates = 0);
          dup_keys = map row_key duplicates;
          dup_list = (if length duplicates > 0
                      then map (\<lambda>k. (k, count_list dup_keys k)) (sort (remdups dup_keys))
                      else [])
      in (passed,
          \<lparr> n_duplicate_rows = length duplicates,
            n_duplicate_groups = length dup_list,
            duplicates = dup_list \<rparr>))"

subsection \<open>The gates as methods of the checker, and the report\<close>

definition run_gate ::
  "string \<Rightarrow> (qa_env \<Rightarrow> frame \<Rightarrow> bool \<times> 'd) \<Rightarrow> ('d \<Rightarrow> details) \<Rightarrow> qa_env \<Rightarrow> qa_state \<Rightarrow>
     (bool \<times> details) \<times> qa_state" where
  \<comment> \<open>a gate reads the frame, logs its verdict under its short name and returns it\<close>
  "run_gate short check wrap env st =
     (let (passed, d) = check env (frame_of st)
      in ((passed, wrap d), log_quality_check short passed (wrap d) st))"

definition gate1_effect_size_range :: "qa_env \<Rightarrow> qa_state \<Rightarrow> (bool \<times> details) \<times> qa_state" where
  "gate1_effect_size_range = run_gate ''Gate 1'' gate1_check D1"

definition gate2_sample_size :: "qa_env \<Rightarrow> qa_state \<Rightarrow> (bool \<times> details) \<times> qa_state" where
  "gate2_sample_size = run_gate ''Gate 2'' gate2_check D2"

definition gate3_design_validity :: "qa_env \<Rightarrow> qa_state \<Rightarrow> (bool \<times> details) \<times> qa_state" where
  "gate3_design_validity = run_gate ''Gate 3'' gate3_check D3"

definition gate4_outcome_type :: "qa_env \<Rightarrow> qa_state \<Rightarrow> (bool \<times> details) \<times> qa_state" where
  "gate4_outcome_type = run_gate ''Gate 4'' gate4_check D4"

definition gate5_completeness :: "qa_env \<Rightarrow> qa_state \<Rightarrow> (bool \<times> details) \<times> qa_state" where
  "gate5_completeness = run_gate ''Gate 5'' gate5_check D5"

definition gate6_no_duplicates :: "qa_env \<Rightarrow> qa_state \<Rightarrow> (bool \<times> details) \<times> qa_state" where
  "gate6_no_duplicates = run_gate ''Gate 6'' gate6_check D6"

definition gates :: "(string \<times> (qa_env \<Rightarrow> qa_state \<Rightarrow> (bool \<times> details) \<times> qa_state)) list" where
  "gates =
     [(''Gate 1: Effect Size Range'', gate1_effect_size_range),
      (''Gate 2: Sample Size Adequacy'', gate2_sample_size),
      (''Gate 3: Design Validity'', gate3_design_validity),
      (''Gate 4: Outcome Type Check'', gate4_outcome_type),
      (''Gate 5: Completeness Check'', gate5_completeness),
      (''Gate 6: Duplicate Check'', gate6_no_duplicates)]"

record dataset_summary =
  n_studies :: nat
  n_effect_sizes :: nat
  n_valid_g :: nat
  g_mean :: "real option"
  g_sd :: "real option"
  g_range :: "(real option \<times> real option) option"

record qa_report =
  qa_timestamp :: string
  all_gates_passed :: bool
  gate_results :: "(string \<times> bool \<times> details) list"
  summary :: dataset_summary

fun gate_loop ::
  "(string \<times> (qa_env \<Rightarrow> qa_state \<Rightarrow> (bool \<times> details) \<times> qa_state)) list \<Rightarrow> qa_env \<Rightarrow>
     (string \<times> bool \<times> details) list \<times> bool \<Rightarrow> qa_state \<Rightarrow>
     ((string \<times> bool \<times> details) list \<times> bool) \<times> qa_state" where
  \<comment> \<open>\<open>for gate_name, gate_func in self.gates\<close>, carrying \<open>gate_results\<close> and \<open>all_passed\<close>\<close>
  "gate_loop [] env acc st = (acc, st)"
| "gate_loop ((gate_name, gate_func) # rest) env (results, all_passed) st =
     (let ((passed, d), st') = gate_func env st
      in gate_loop rest env
           (results @ [(gate_name, passed, d)], if \<not> passed then False else all_passed) st')"

definition run_all_gates :: "string \<Rightarrow> qa_env \<Rightarrow> qa_state \<Rightarrow> qa_report \<times> qa_state" where
  \<comment> \<open>\<open>now\<close> is \<open>datetime.now().isoformat()\<close>\<close>
  "run_all_gates now env st =
     (let ((results, all_passed), st') = gate_loop gates env ([], True) st;
          df = frame_of st'
      in (\<lparr> qa_timestamp = now,
            all_gates_passed = all_passed,
            gate_results = results,
            summary =
              \<lparr> n_studies = length (unique (map study_id df)),
                n_effect_sizes = length df,
                n_valid_g = length (notna_g df),
                g_mean = (if df \<noteq> [] then map_option (py_round 3) (col_mean (notna_g df)) else None),
                g_sd = (if df \<noteq> [] then map_option (py_round 3) (col_std (notna_g df)) else None),
                g_range = (if df \<noteq> []
                           then Some (map_option (py_round 3) (col_min (notna_g df)),
                                      map_option (py_round 3) (col_max (notna_g df)))
                           else None) \<rparr> \<rparr>,
          st'))"

subsection \<open>The sample-size requirement as the specification writes it\<close>

definition sample_size_requirement :: "real \<Rightarrow> row \<Rightarrow> bool" where
  \<comment> \<open>pre-post: \<open>n_total \<ge> 2 * min_n\<close>; otherwise \<open>n_treatment \<ge> min_n\<close> and \<open>n_control \<ge> min_n\<close>.
      A sample size that is not there does not meet a bound.\<close>
  "sample_size_requirement min_n r =
     (if is_prepost r then (case n_total r of Some n \<Rightarrow> 2 * min_n \<le> n | None \<Rightarrow> False)
      else (case n_treatment r of Some n \<Rightarrow> min_n \<le> n | None \<Rightarrow> False) \<and>
           (case n_control r of Some n \<Rightarrow> min_n \<le> n | None \<Rightarrow> False))"

fun issue_study :: "size_issue \<Rightarrow> string" where
  "issue_study (TotalBelow s n m) = s"
| "issue_study (TreatmentBelow s n m) = s"
| "issue_study (ControlBelow s n m) = s"

definition flagged :: "qa_env \<Rightarrow> frame \<Rightarrow> string \<Rightarrow> bool" where
  \<comment> \<open>gate 2 reports an issue for the study\<close>
  "flagged env df sid = list_ex (\<lambda>i. issue_study i = sid) (issues (snd (gate2_check env df)))"

definition below :: "real option \<Rightarrow> real \<Rightarrow> bool" where
  \<comment> \<open>the sample size is present and below the bound\<close>
  "below v m = (case v of Some n \<Rightarrow> n < m | None \<Rightarrow> False)"

definition study_row :: "string \<Rightarrow> string \<Rightarrow> real option \<Rightarrow> real option \<Rightarrow> real option \<Rightarrow> row" where
  \<comment> \<open>a row of a study with the given design and sample sizes\<close>
  "study_row sid design nt nc ntot =
     \<lparr> study_id = sid, outcome_label = ''test1'', hedges_g = Some (1 / 2), se_g = Some (1 / 10),
       n_models_agree = 3, consensus_quality = ''3/3_agree'', flag = None,
       design_type = Some design, n_treatment = nt, n_control = nc, n_total = ntot,
       outcome_type = Some ''achievement'', learning_domain = ''math'', country = ''KR'',
       education_level = ''K12'', oversight_level = Some ''high'',
       architecture = Some ''single'', agency_level = Some ''low'', agent_role = Some ''tutor'',
       modality = Some ''text'', technology = Some ''llm'', adaptivity = Some ''adaptive'' \<rparr>"

definition default_env :: qa_env where
  "default_env = \<lparr> targets = default_targets, set_order = (\<lambda>xs. xs) \<rparr>"

definition st_example :: qa_state where
  "st_example =
     \<lparr> frame_of = [study_row ''s1'' ''pre_post'' None None (Some 15)], audit_log = [] \<rparr>"

text \<open>The six verdicts, as functions of the frame alone.\<close>

definition expected_results :: "qa_env \<Rightarrow> frame \<Rightarrow> (string \<times> bool \<times> details) list" where
  "expected_results env df =
     [(''Gate 1: Effect Size Range'', fst (gate1_check env df), D1 (snd (gate1_check env df))),
      (''Gate 2: Sample Size Adequacy'', fst (gate2_check env df), D2 (snd (gate2_check env df))),
      (''Gate 3: Design Validity'', fst (gate3_check env df), D3 (snd (gate3_check env df))),
      (''Gate 4: Outcome Type Check'', fst (gate4_check env df), D4 (snd (gate4_check env df))),
      (''Gate 5: Completeness Check'', fst (gate5_check env df), D5 (snd (gate5_check env df))),
      (''Gate 6: Duplicate Check'', fst (gate6_check env df), D6 (snd (gate6_check env df)))]"

section \<open>Consensus of three models (scripts/ai\_coding\_pipeline/phase4\_consensus.py)\<close>

record verified_es =
  es_outcome_label :: "string option"
  es_hedges_g :: "real option"
  es_se_g :: "real option"
  es_conversion_valid :: "bool option"

text \<open>
  What one model returned: a dictionary with the key \<open>error\<close>, or a verification whose
  \<open>verified_effect_sizes\<close> (the empty list when the key is absent) is given.
\<close>

datatype model_result = ModelError string | ModelResult "verified_es list"

record entry =
  e_model :: string
  e_hedges_g :: "real option"
  e_se_g :: "real option"
  e_valid :: bool

record consensus_es =
  cs_outcome_label :: string
  cs_hedges_g_consensus :: real
  cs_se_g_consensus :: "real option"
  cs_g_values_per_model :: "real list"
  cs_n_models_agree :: nat
  cs_consensus_quality :: string
  cs_flag :: "string option"

definition label_of :: "verified_es \<Rightarrow> string" where
  \<comment> \<open>\<open>es.get('outcome_label', 'unknown')\<close>\<close>
  "label_of es = (case es_outcome_label es of None \<Rightarrow> ''unknown'' | Some l \<Rightarrow> l)"

definition entry_of :: "string \<Rightarrow> verified_es \<Rightarrow> entry" where
  "entry_of model_name es =
     \<lparr> e_model = model_name, e_hedges_g = es_hedges_g es, e_se_g = es_se_g es,
       e_valid = (case es_conversion_valid es of None \<Rightarrow> True | Some b \<Rightarrow> b) \<rparr>"

definition add_entry :: "(string \<times> entry list) list \<Rightarrow> string \<times> entry \<Rightarrow> (string \<times> entry list) list" where
  \<comment> \<open>\<open>if label not in label_effects: label_effects[label] = []\<close>, then \<open>append\<close>; a
      dictionary keeps its keys in the order of their insertion\<close>
  "add_entry le x =
     (case x of (label, e) \<Rightarrow>
        if label \<in> set (map fst le)
        then map (\<lambda>(k, vs). if k = label then (k, vs @ [e]) else (k, vs)) le
        else le @ [(label, [e])])"

definition collect_model :: "string \<times> model_result \<Rightarrow> (string \<times> entry list) list \<Rightarrow> (string \<times> entry list) list" where
  \<comment> \<open>the body of \<open>for model_name, result in model_results.items()\<close>\<close>
  "collect_model m le =
     (case m of
        (model_name, ModelError msg) \<Rightarrow> le
      | (model_name, ModelResult ess) \<Rightarrow>
          fold (\<lambda>es le. add_entry le (label_of es, entry_of model_name es)) ess le)"

definition label_effects :: "(string \<times> model_result) list \<Rightarrow> (string \<times> entry list) list" where
  "label_effects model_results = fold collect_model model_results []"

definition consensus_of :: "string \<times> entry list \<Rightarrow> consensus_es list" where
  \<comment> \<open>the body of \<open>for label, values in label_effects.items()\<close>; \<open>[]\<close> is \<open>continue\<close>\<close>
  "consensus_of lv =
     (case lv of (label, vals) \<Rightarrow>
        let n_models = length vals;
            valid_values = filter (\<lambda>v. e_hedges_g v \<noteq> None) vals
        in if valid_values = [] then []
           else
             let g_values = map (\<lambda>v. the (e_hedges_g v)) valid_values;
                 se_values = map (\<lambda>v. the (e_se_g v)) (filter (\<lambda>v. e_se_g v \<noteq> None) valid_values);
                 g_consensus = sum_list g_values / real (length g_values);
                 se_consensus = (if se_values \<noteq> []
                                 then Some (sum_list se_values / real (length se_values))
                                 else None);
                 (quality, flag) =
                   (if n_models = 3 then (''3/3_agree'', None)
                    else if n_models = 2 then (''2/3_agree'', Some ''majority_consensus'')
                    else (''1/3_only'', Some ''human_review_needed''))
             in [\<lparr> cs_outcome_label = label,
                   cs_hedges_g_consensus = py_round 4 g_consensus,
                   cs_se_g_consensus =
                     (case se_consensus of
                        None \<Rightarrow> None
                      | Some s \<Rightarrow> if s \<noteq> 0 then Some (py_round 4 s) else None),
                   cs_g_values_per_model = g_values,
                   cs_n_models_agree = n_models,
                   cs_consensus_quality = quality,
                   cs_flag = flag \<rparr>])"

definition synthesize_effect_sizes :: "(string \<times> model_result) list \<Rightarrow> consensus_es list" where
  "synthesize_effect_sizes model_results = concat (map consensus_of (label_effects model_results))"

subsection \<open>The synthesis as the specification writes it\<close>

definition reported :: "(string \<times> model_result) list \<Rightarrow> (string \<times> entry) list" where
  \<comment> \<open>every effect size of every model that did not error, with its label\<close>
  "reported model_results =
     concat (map (\<lambda>(model_name, r). case r of
                     ModelError msg \<Rightarrow> []
                   | ModelResult ess \<Rightarrow> map (\<lambda>es. (label_of es, entry_of model_name es)) ess)
               model_results)"

definition entries_for :: "(string \<times> model_result) list \<Rightarrow> string \<Rightarrow> entry list" where
  "entries_for model_results label =
     map snd (filter (\<lambda>(l, e). l = label) (reported model_results))"

definition g_values_for :: "(string \<times> model_result) list \<Rightarrow> string \<Rightarrow> real list" where
  \<comment> \<open>the non-null g values reported for the label\<close>
  "g_values_for model_results label =
     List.map_filter e_hedges_g (entries_for model_results label)"

definition se_values_for :: "(string \<times> model_result) list \<Rightarrow> string \<Rightarrow> real list" where
  \<comment> \<open>the non-null se values of the entries that have a non-null g\<close>
  "se_values_for model_results label =
     List.map_filter e_se_g (filter (\<lambda>v. e_hedges_g v \<noteq> None) (entries_for model_results label))"

definition mean :: "real list \<Rightarrow> real" where
  "mean xs = sum_list xs / real (length xs)"

definition tier :: "nat \<Rightarrow> string \<times> string option" where
  \<comment> \<open>3: "3/3\_agree"; 2: "2/3\_agree", majority; 1: "1/3\_only", human review\<close>
  "tier n =
     (if n = 3 then (''3/3_agree'', None)
      else if n = 2 then (''2/3_agree'', Some ''majority_consensus'')
      else (''1/3_only'', Some ''human_review_needed''))"

text \<open>The consensus record the synthesis yields for a label.\<close>

definition consensus_for :: "(string \<times> model_result) list \<Rightarrow> string \<Rightarrow> consensus_es" where
  "consensus_for mr l =
     \<lparr> cs_outcome_label = l,
       cs_hedges_g_consensus = py_round 4 (mean (g_values_for mr l)),
       cs_se_g_consensus =
         (if se_values_for mr l = [] \<or> mean (se_values_for mr l) = 0 then None
          else Some (py_round 4 (mean (se_values_for mr l)))),
       cs_g_values_per_model = g_values_for mr l,
       cs_n_models_agree = length (entries_for mr l),
       cs_consensus_quality = fst (tier (length (entries_for mr l))),
       cs_flag = snd (tier (length (entries_for mr l))) \<rparr>"

definition es_entry :: "string \<Rightarrow> real option \<Rightarrow> real option \<Rightarrow> verified_es" where
  "es_entry label g se =
     \<lparr> es_outcome_label = Some label, es_hedges_g = g, es_se_g = se,
       es_conversion_valid = Some True \<rparr>"

definition models_two_of_three :: "(string \<times> model_result) list" where
  \<comment> \<open>three models report "test1"; the third one without a \<open>hedges_g\<close>\<close>
  "models_two_of_three =
     [(''claude'', ModelResult [es_entry ''test1'' (Some (12345 / 100000)) (Some (1 / 10))]),
      (''gpt4o'', ModelResult [es_entry ''test1'' (Some (12346 / 100000)) (Some (1 / 10))]),
      (''groq'', ModelResult [es_entry ''test1'' None None])]"

definition models_agree :: "(string \<times> model_result) list" where
  \<comment> \<open>all three models report g = 0.50, se = 0.10 for "test1"\<close>
  "models_agree =
     [(''claude'', ModelResult [es_entry ''test1'' (Some (1 / 2)) (Some (1 / 10))]),
      (''gpt4o'', ModelResult [es_entry ''test1'' (Some (1 / 2)) (Some (1 / 10))]),
      (''groq'', ModelResult [es_entry ''test1'' (Some (1 / 2)) (Some (1 / 10))])]"

section \<open>Trim and fill (scripts/figure\_generation/generate\_funnel\_plots.py)\<close>

record funnel_meta =
  fp_pooled_g :: real
  fp_se_pooled :: real
  fp_ci_lower :: real
  fp_ci_upper :: real
  fp_Q :: real
  fp_df :: int
  fp_I2 :: real
  fp_tau2 :: real
  fp_k :: nat

definition np_tau2 :: "real \<Rightarrow> real \<Rightarrow> real res" where
  \<comment> \<open>\<open>max(0.0, num / c)\<close> on NumPy scalars: with \<open>c = 0\<close> the quotient is \<open>nan\<close> or \<open>-inf\<close>,
      which \<open>max\<close> replaces by 0.0, or \<open>+inf\<close>, which it returns\<close>
  "np_tau2 num c =
     (if c = 0 then (if 0 < num then NotFinite else Ok 0) else Ok (max 0 (num / c)))"

definition funnel_random_effects_meta :: "real list \<Rightarrow> real list \<Rightarrow> funnel_meta option res" where
  \<comment> \<open>\<open>random_effects_meta\<close> of the funnel-plot module; \<open>None\<close> is the empty dictionary\<close>
  "funnel_random_effects_meta g se =
     (let k = length g in
      if k = 0 then Ok None
      else
        let var = map (\<lambda>s. s ^ 2) se in
        thn (np_recip var) (\<lambda>w_fixed.
        thn (np_mul w_fixed g) (\<lambda>wg.
        thn (np_div (np_sum wg) (np_sum w_fixed)) (\<lambda>g_fixed.
        thn (np_mul w_fixed (map (\<lambda>x. (x - g_fixed) ^ 2) g)) (\<lambda>wd.
        let Q = np_sum wd in
        thn (np_div (np_sum (map (\<lambda>w. w ^ 2) w_fixed)) (np_sum w_fixed)) (\<lambda>q.
        let c = np_sum w_fixed - q in
        thn (np_tau2 (Q - (real k - 1)) c) (\<lambda>tau2.
        thn (np_recip (map (\<lambda>v. v + tau2) var)) (\<lambda>w_re.
        thn (np_mul w_re g) (\<lambda>wrg.
        thn (np_div (np_sum wrg) (np_sum w_re)) (\<lambda>g_pooled.
        thn (np_div 1 (np_sum w_re)) (\<lambda>v_pooled.
        thn (np_sqrt v_pooled) (\<lambda>se_pooled.
        let I2 = (if 0 < Q then max 0 ((Q - (real k - 1)) / Q * 100) else 0) in
        Ok (Some
          \<lparr> fp_pooled_g = g_pooled,
            fp_se_pooled = se_pooled,
            fp_ci_lower = g_pooled - 1.96 * se_pooled,
            fp_ci_upper = g_pooled + 1.96 * se_pooled,
            fp_Q = Q, fp_df = int k - 1, fp_I2 = I2, fp_tau2 = tau2, fp_k = k \<rparr>)))))))))))))"

definition argsort :: "real list \<Rightarrow> nat list" where
  \<comment> \<open>\<open>np.argsort\<close>: the indices in the order of their values, equal values in the order of
      their indices\<close>
  "argsort xs = map snd (sort_key fst (zip xs [0..<length xs]))"

fun index_of :: "nat \<Rightarrow> nat list \<Rightarrow> nat res" where
  \<comment> \<open>\<open>np.where(ranks == i)[0][0]\<close>\<close>
  "index_of i [] = Raise IndexError"
| "index_of i (x # xs) = (if x = i then Ok 0 else thn (index_of i xs) (\<lambda>j. Ok (Suc j)))"

definition sign_counts :: "string \<Rightarrow> real \<Rightarrow> bool" where
  \<comment> \<open>\<open>(side == 'left' and sign < 0) or (side == 'right' and sign > 0)\<close>\<close>
  "sign_counts side d = ((side = ''left'' \<and> d < 0) \<or> (side = ''right'' \<and> 0 < d))"

fun rank_sum :: "string \<Rightarrow> real list \<Rightarrow> nat list \<Rightarrow> nat list \<Rightarrow> int \<Rightarrow> int res" where
  \<comment> \<open>\<open>for i in range(n)\<close>, accumulating \<open>T_n\<close>\<close>
  "rank_sum side deviations ranks [] T_n = Ok T_n"
| "rank_sum side deviations ranks (i # is) T_n =
     thn (index_of i ranks) (\<lambda>rank.
     rank_sum side deviations ranks is
       (if sign_counts side (deviations ! i) then T_n + (int rank + 1) else T_n))"

definition center_of :: "funnel_meta option \<Rightarrow> real" where
  \<comment> \<open>\<open>pooled.get('pooled_g', np.mean(g))\<close>; the dictionary is empty only for the empty
      array, whose mean is \<open>nan\<close> and whose deviations are no values at all\<close>
  "center_of pooled = (case pooled of Some p \<Rightarrow> fp_pooled_g p | None \<Rightarrow> 0)"

definition estimate_k0 :: "real list \<Rightarrow> real list \<Rightarrow> string \<Rightarrow> int res" where
  \<comment> \<open>one round of the loop, from \<open># Pool current estimate\<close> to the estimator \<open>L0\<close>\<close>
  "estimate_k0 g se side =
     thn (funnel_random_effects_meta g se) (\<lambda>pooled.
     let center = center_of pooled;
         deviations = map (\<lambda>x. x - center) g;
         ranks = (if side = ''left'' then argsort deviations
                  else argsort (map (\<lambda>d. - d) deviations));
         n = int (length g)
     in thn (rank_sum side deviations ranks [0..<length g] 0) (\<lambda>T_n.
        Ok (max 0 (py_round_int (of_int (4 * T_n - n * (n + 1)) / of_int (2 * n - 1))))))"

record tf_state =
  st_k0_prev :: int
  st_k0 :: int
  st_rounds :: nat

fun tf_loop :: "nat \<Rightarrow> real list \<Rightarrow> real list \<Rightarrow> string \<Rightarrow> tf_state \<Rightarrow> tf_state res" where
  \<comment> \<open>\<open>for iteration in range(max_iter)\<close>; \<open>st_rounds\<close> counts the rounds that pooled\<close>
  "tf_loop 0 g se side st = Ok st"
| "tf_loop (Suc it) g se side st =
     (if st_k0 st = st_k0_prev st then Ok st
      else
        let st = st\<lparr>st_k0_prev := st_k0 st\<rparr>
        in thn (estimate_k0 g se side) (\<lambda>e.
           let st = st\<lparr>st_k0 := e, st_rounds := Suc (st_rounds st)\<rparr>
           in if st_k0 st \<ge> int (length g) then Ok (st\<lparr>st_k0 := max 0 (int (length g) - 1)\<rparr>)
              else tf_loop it g se side st))"

definition take_indices :: "real list \<Rightarrow> nat list \<Rightarrow> real list res" where
  \<comment> \<open>\<open>se[indices]\<close>\<close>
  "take_indices se idx =
     (if list_all (\<lambda>i. i < length se) idx then Ok (map (\<lambda>i. se ! i) idx) else Raise IndexError)"

definition impute :: "string \<Rightarrow> real list \<Rightarrow> real list \<Rightarrow> real \<Rightarrow> int \<Rightarrow> (real list \<times> real list) res" where
  \<comment> \<open>the mirror-image studies: \<open>g_adj\<close> and \<open>se_adj\<close>\<close>
  "impute side g se center k0 =
     (let sorted_g = (if side = ''left'' then take (nat k0) (rev (sort g))
                      else take (nat k0) (sort g));
          imputed_g = map (\<lambda>x. 2 * center - x) sorted_g
      in thn (take_indices se (argsort (map (\<lambda>x. \<bar>x - center\<bar>) g))) (\<lambda>by_distance.
         let imputed_se = take (nat k0) by_distance
         in Ok (g @ imputed_g, se @ imputed_se)))"

record tf_result =
  k0_imputed :: int
  adjusted_pooled_g :: "real option"
  adjusted_ci_lower :: "real option"
  adjusted_ci_upper :: "real option"
  adjusted_se :: "real option"
  converged :: bool

definition trim_and_fill :: "real list \<Rightarrow> real list \<Rightarrow> string \<Rightarrow> nat \<Rightarrow> tf_result res" where
  "trim_and_fill g se side max_iter =
     thn (tf_loop max_iter g se side \<lparr>st_k0_prev = - 1, st_k0 = 0, st_rounds = 0\<rparr>) (\<lambda>st.
     thn (if 0 < st_k0 st then
            thn (funnel_random_effects_meta g se) (\<lambda>pooled_all.
            thn (impute side g se (center_of pooled_all) (st_k0 st)) (\<lambda>(g_adj, se_adj).
            funnel_random_effects_meta g_adj se_adj))
          else funnel_random_effects_meta g se) (\<lambda>adjusted.
     Ok \<lparr> k0_imputed = st_k0 st,
          adjusted_pooled_g = map_option fp_pooled_g adjusted,
          adjusted_ci_lower = map_option fp_ci_lower adjusted,
          adjusted_ci_upper = map_option fp_ci_upper adjusted,
          adjusted_se = map_option fp_se_pooled adjusted,
          converged = (st_k0 st = st_k0_prev st) \<rparr>))"

subsection \<open>The imputation as the specification writes it\<close>

definition mirrored_studies :: "string \<Rightarrow> real list \<Rightarrow> real list \<Rightarrow> nat \<Rightarrow> (real \<times> real) list" where
  \<comment> \<open>the \<open>k0\<close> most extreme studies: the largest effects for \<open>'left'\<close>, the smallest
      otherwise, each with its own standard error\<close>
  "mirrored_studies side g se n =
     (if side = ''left'' then take n (rev (sort_key fst (zip g se)))
      else take n (sort_key fst (zip g se)))"

definition matched_imputation :: "string \<Rightarrow> real list \<Rightarrow> real list \<Rightarrow> real \<Rightarrow> nat \<Rightarrow> real list \<times> real list" where
  \<comment> \<open>\<open>imputed_g = 2 * center - g\<close> for the mirrored studies, with their matched SEs\<close>
  "matched_imputation side g se center n =
     (g @ map (\<lambda>(x, s). 2 * center - x) (mirrored_studies side g se n),
      se @ map snd (mirrored_studies side g se n))"

definition tf_g :: "real list" where
  "tf_g = [0, 1 / 10, 1 / 5, 2]"

definition tf_se :: "real list" where
  "tf_se = [1, 1, 1, 2]"

section \<open>Basic facts\<close>

lemma thn_Ok [simp]: "thn (Ok x) f = f x"
  by (simp add: thn_def)

lemma thn_Raise [simp]: "thn (Raise e) f = Raise e"
  by (simp add: thn_def)

lemma thn_NotFinite [simp]: "thn NotFinite f = NotFinite"
  by (simp add: thn_def)

lemma np_bcast_same: "length xs = length ys \<Longrightarrow> np_bcast f xs ys = Ok (map2 f xs ys)"
  by (simp add: np_bcast_def)

lemma np_mul_same: "length xs = length ys \<Longrightarrow> np_mul xs ys = Ok (map2 (*) xs ys)"
  by (simp add: np_mul_def np_bcast_same)

lemma np_recip_Ok: "0 \<notin> set xs \<Longrightarrow> np_recip xs = Ok (map (\<lambda>x. 1 / x) xs)"
  by (simp add: np_recip_def)

section \<open>A single study makes the tau-squared division fail\<close>

text \<open>
  C4. With one study the DerSimonian-Laird constant \<open>c = \<Sum>w - \<Sum>w\<^sup>2 / \<Sum>w\<close> is zero, and
  \<open>(Q - (k - 1)) / c\<close> is a division of two Python floats: \<open>random_effects_meta\<close> raises
  \<open>ZeroDivisionError\<close> instead of returning a result dictionary.
\<close>

theorem random_effects_meta_single_study_raises:
  "s \<noteq> 0 \<Longrightarrow> random_effects_meta scipy [x] [s] = Raise ZeroDivisionError"
  by (simp add: random_effects_meta_def np_recip_def np_mul_def np_bcast_def np_div_def
      np_sum_def py_div_def power2_eq_square)

theorem random_effects_meta_single_study_raises_witness:
  "(1 / 2 :: real) \<noteq> 0 \<and> random_effects_meta None [3 / 10] [1 / 2] = Raise ZeroDivisionError"
  using random_effects_meta_single_study_raises [of "1 / 2" None "3 / 10"] by simp

text \<open>
  The \<open>random_effects_meta\<close> of the funnel-plot module computes the same quotient on NumPy
  scalars: for one study it is \<open>nan\<close>, \<open>max(0.0, nan)\<close> is 0.0, and a result is returned.
\<close>

lemma funnel_random_effects_meta_single_study:
  assumes "s \<noteq> 0"
  shows "\<exists>p. funnel_random_effects_meta [x] [s] = Ok (Some p) \<and> fp_pooled_g p = x \<and>
           fp_tau2 p = 0 \<and> fp_I2 p = 0"
  using assms
  by (simp add: funnel_random_effects_meta_def np_recip_def np_mul_def np_bcast_def np_div_def
      np_sum_def np_tau2_def np_sqrt_def power2_eq_square)

section \<open>The pooled estimate is the DerSimonian-Laird estimate\<close>

lemma sum_list_map_nth: "sum_list (map f xs) = (\<Sum>i<length xs. f (xs ! i))"
  by (induction xs rule: rev_induct) (simp_all add: nth_append)

lemma sum_list_map2_nth:
  "length xs = length ys \<Longrightarrow> sum_list (map2 f xs ys) = (\<Sum>i<length xs. f (xs ! i) (ys ! i))"
proof -
  assume len: "length xs = length ys"
  have "sum_list (map2 f xs ys) = (\<Sum>i<length (zip xs ys). (\<lambda>(x, y). f x y) (zip xs ys ! i))"
    by (rule sum_list_map_nth)
  also have "\<dots> = (\<Sum>i<length xs. f (xs ! i) (ys ! i))"
    using len by simp
  finally show ?thesis .
qed

lemma sum_list_pos_real: "xs \<noteq> [] \<Longrightarrow> \<forall>x\<in>set xs. (0::real) < x \<Longrightarrow> 0 < sum_list xs"
  by (induction xs) (auto intro: add_pos_nonneg sum_list_nonneg less_imp_le)

lemma sum_squares_le: "\<forall>x\<in>set xs. (0::real) < x \<Longrightarrow> sum_list (map (\<lambda>w. w ^ 2) xs) \<le> (sum_list xs) ^ 2"
proof (induction xs)
  case Nil
  then show ?case by simp
next
  case (Cons a xs)
  have "0 \<le> sum_list xs" using Cons.prems by (intro sum_list_nonneg) (auto intro: less_imp_le)
  moreover have "0 < a" using Cons.prems by simp
  ultimately have "0 \<le> 2 * a * sum_list xs" by simp
  moreover have "sum_list (map (\<lambda>w. w ^ 2) xs) \<le> (sum_list xs) ^ 2" using Cons by simp
  ultimately show ?case by (simp add: power2_sum)
qed

lemma sum_squares_less:
  assumes "2 \<le> length xs" "\<forall>x\<in>set xs. (0::real) < x"
  shows "sum_list (map (\<lambda>w. w ^ 2) xs) < (sum_list xs) ^ 2"
proof -
  obtain a ys where xs: "xs = a # ys" and ys: "ys \<noteq> []"
    using assms(1) by (cases xs) (auto simp: Suc_le_eq)
  have a: "0 < a" and pos: "\<forall>x\<in>set ys. 0 < x" using assms(2) xs by auto
  have "0 < sum_list ys" using ys pos by (rule sum_list_pos_real)
  then have "0 < 2 * a * sum_list ys" using a by simp
  moreover have "sum_list (map (\<lambda>w. w ^ 2) ys) \<le> (sum_list ys) ^ 2" using pos by (rule sum_squares_le)
  ultimately show ?thesis by (simp add: xs power2_sum)
qed

lemma py_round_nonneg: "0 \<le> x \<Longrightarrow> 0 \<le> py_round n x"
proof -
  assume "0 \<le> x"
  then have "0 \<le> x * 10 ^ n" by simp
  then have "0 \<le> \<lfloor>x * 10 ^ n\<rfloor>" by simp
  then show ?thesis by (simp add: py_round_def Let_def)
qed

lemma py_round_le_100: assumes "x \<le> 100" shows "py_round 1 x \<le> 100"
proof -
  let ?y = "x * 10"
  have y: "?y \<le> 1000" using assms by simp
  have "\<lfloor>?y\<rfloor> \<le> \<lfloor>1000::real\<rfloor>" using y by (rule floor_mono)
  then have fl: "\<lfloor>?y\<rfloor> \<le> 1000" by simp
  show ?thesis
  proof (cases "\<lfloor>?y\<rfloor> = 1000")
    case True
    then have "1000 \<le> ?y" by (metis of_int_floor_le of_int_numeral)
    with y have "?y = 1000" by simp
    then have "x = 100" by simp
    then show ?thesis by (simp add: py_round_def Let_def)
  next
    case False
    with fl have "\<lfloor>?y\<rfloor> + 1 \<le> 1000" by linarith
    then have "real_of_int (\<lfloor>?y\<rfloor> + 1) \<le> 1000" by (metis of_int_le_iff of_int_numeral)
    moreover have "real_of_int \<lfloor>?y\<rfloor> \<le> 1000" using fl by (metis of_int_le_iff of_int_numeral)
    ultimately show ?thesis by (simp add: py_round_def Let_def)
  qed
qed

lemma random_effects_meta_run:
  assumes len: "length se = length g" and k: "g \<noteq> []" and pos: "\<forall>s\<in>set se. 0 < s"
    and W: "W = map (\<lambda>x. 1 / x) (map (\<lambda>s. s ^ 2) se)"
    and gf: "gf = sum_list (map2 (*) W g) / sum_list W"
    and Q: "Q = sum_list (map2 (*) W (map (\<lambda>x. (x - gf) ^ 2) g))"
    and c: "c = sum_list W - sum_list (map (\<lambda>w. w ^ 2) W) / sum_list W"
    and c0: "c \<noteq> 0"
    and tau2: "tau2 = max 0 ((Q - (real (length g) - 1)) / c)"
    and Wre: "Wre = map (\<lambda>x. 1 / x) (map (\<lambda>v. v + tau2) (map (\<lambda>s. s ^ 2) se))"
    and gp: "gp = sum_list (map2 (*) Wre g) / sum_list Wre"
    and sp: "sp = sqrt (1 / sum_list Wre)"
    and I2: "I2 = (if 0 < Q then max 0 ((Q - (real (length g) - 1)) / Q * 100) else 0)"
  shows "\<exists>r. random_effects_meta scipy g se = Ok (MetaEstimate r) \<and>
           m_g_pooled r = py_round 4 gp \<and> m_se_pooled r = py_round 4 sp \<and>
           m_Q r = py_round 3 Q \<and> m_I2 r = py_round 1 I2 \<and> m_tau2 r = py_round 4 tau2"
proof -
  have se_ne: "se \<noteq> []" using len k by auto
  have var0: "0 \<notin> set (map (\<lambda>s. s ^ 2) se)" using pos by auto
  have s1: "np_recip (map (\<lambda>s. s ^ 2) se) = Ok W"
    unfolding W by (rule np_recip_Ok [OF var0])
  have lenW: "length W = length g" by (simp add: W len)
  have Wpos: "\<forall>w\<in>set W. 0 < w" using pos by (auto simp: W)
  have W_ne: "W \<noteq> []" using se_ne by (simp add: W)
  have SW: "0 < sum_list W" using W_ne Wpos by (rule sum_list_pos_real)
  have s2: "np_mul W g = Ok (map2 (*) W g)" using lenW by (rule np_mul_same)
  have s3: "np_div (np_sum (map2 (*) W g)) (np_sum W) = Ok gf"
    using SW by (simp add: np_div_def np_sum_def gf)
  have s4: "np_mul W (map (\<lambda>x. (x - gf) ^ 2) g) = Ok (map2 (*) W (map (\<lambda>x. (x - gf) ^ 2) g))"
    using lenW by (intro np_mul_same) simp
  have s5: "np_div (np_sum (map (\<lambda>w. w ^ 2) W)) (np_sum W) = Ok (sum_list (map (\<lambda>w. w ^ 2) W) / sum_list W)"
    using SW by (simp add: np_div_def np_sum_def)
  have s6: "py_div (Q - (real (length g) - 1)) c = Ok ((Q - (real (length g) - 1)) / c)"
    using c0 by (simp add: py_div_def)
  have tau2_nn: "0 \<le> tau2" by (simp add: tau2)
  have v0: "0 \<notin> set (map (\<lambda>v. v + tau2) (map (\<lambda>s. s ^ 2) se))"
  proof
    assume "0 \<in> set (map (\<lambda>v. v + tau2) (map (\<lambda>s. s ^ 2) se))"
    then obtain s where s: "s \<in> set se" and z: "s ^ 2 + tau2 = 0" by auto
    have "0 < s ^ 2" using pos s by (auto simp: zero_less_power)
    with tau2_nn z show False by linarith
  qed
  have s7: "np_recip (map (\<lambda>v. v + tau2) (map (\<lambda>s. s ^ 2) se)) = Ok Wre"
    unfolding Wre by (rule np_recip_Ok [OF v0])
  have lenWre: "length Wre = length g" by (simp add: Wre len)
  have Wre_pos: "\<forall>w\<in>set Wre. 0 < w"
  proof
    fix w assume "w \<in> set Wre"
    then obtain s where s: "s \<in> set se" and w: "w = 1 / (s ^ 2 + tau2)" by (auto simp: Wre)
    have "0 < s ^ 2" using pos s by (auto simp: zero_less_power)
    with tau2_nn have "0 < s ^ 2 + tau2" by linarith
    then show "0 < w" by (simp add: w)
  qed
  have Wre_ne: "Wre \<noteq> []" using se_ne by (simp add: Wre)
  have SWre: "0 < sum_list Wre" using Wre_ne Wre_pos by (rule sum_list_pos_real)
  have s8: "np_mul Wre g = Ok (map2 (*) Wre g)" using lenWre by (rule np_mul_same)
  have s9: "np_div (np_sum (map2 (*) Wre g)) (np_sum Wre) = Ok gp"
    using SWre by (simp add: np_div_def np_sum_def gp)
  have s10: "np_div 1 (np_sum Wre) = Ok (1 / sum_list Wre)"
    using SWre by (simp add: np_div_def np_sum_def)
  have s11: "np_sqrt (1 / sum_list Wre) = Ok sp"
    using SWre by (simp add: np_sqrt_def sp)
  have sp_pos: "0 < sp" using SWre by (simp add: sp)
  have Qe: "np_sum (map2 (*) W (map (\<lambda>x. (x - gf) ^ 2) g)) = Q"
    by (simp add: Q np_sum_def)
  have ce: "np_sum W - sum_list (map (\<lambda>w. w ^ 2) W) / sum_list W = c"
    by (simp add: c np_sum_def)
  have te: "max 0 ((Q - (real (length g) - 1)) / c) = tau2"
    by (simp add: tau2)
  have s9': "np_div (np_sum (map2 (*) Wre g)) (np_sum Wre) = Ok gp"
    by (rule s9)
  have s10': "np_div 1 (np_sum Wre) = Ok (1 / sum_list Wre)"
    by (rule s10)
  obtain pq pp where s12: "p_values scipy Q (length g) gp sp = Ok (pq, pp)"
    using sp_pos by (cases scipy) (simp_all add: p_values_def py_div_def)
  have glen: "(length g = 0) = False" using k by simp
  have I2e: "(if 0 < Q then max 0 ((Q - (real (length g) - 1)) / Q * 100) else 0) = I2"
    by (simp add: I2)
  have "random_effects_meta scipy g se = Ok (MetaEstimate
          \<lparr> m_k = length g,
            m_g_pooled = py_round 4 gp,
            m_se_pooled = py_round 4 sp,
            m_ci_lower = py_round 4 (gp - 1.96 * sp),
            m_ci_upper = py_round 4 (gp + 1.96 * sp),
            m_p_pooled = map_option (py_round 4) pp,
            m_Q = py_round 3 Q,
            m_df_Q = length g - 1,
            m_p_Q = py_round 4 pq,
            m_I2 = py_round 1 I2,
            m_tau2 = py_round 4 tau2,
            m_tau = py_round 4 (sqrt tau2),
            m_pi_lower = py_round 3 (gp - 1.96 * sqrt (sp ^ 2 + tau2)),
            m_pi_upper = py_round 3 (gp + 1.96 * sqrt (sp ^ 2 + tau2)) \<rparr>)"
    by (simp only: random_effects_meta_def Let_def glen if_False s1 thn_Ok s2 s3 s4 Qe s5 ce s6
        te s7 s8 s9' s10' s11 s12 I2e prod.case)
  then show ?thesis by simp
qed

text \<open>
  C1. For at least two studies with strictly positive standard errors,
  \<open>random_effects_meta\<close> returns a dictionary whose \<open>tau2\<close>, \<open>g_pooled\<close>, \<open>se_pooled\<close>,
  \<open>I2\<close> and \<open>Q\<close> are the DerSimonian-Laird quantities of the specification, rounded as the
  dictionary rounds them; the returned \<open>tau2\<close> is never negative and the returned \<open>I2\<close>
  lies between 0 and 100.
\<close>

theorem random_effects_meta_dersimonian_laird:
  assumes len: "length se = length g" and k2: "2 \<le> length g" and pos: "\<forall>s\<in>set se. 0 < s"
  shows "\<exists>r. random_effects_meta scipy g se = Ok (MetaEstimate r) \<and>
           m_tau2 r = py_round 4 (dl_tau2 g se) \<and>
           m_g_pooled r = py_round 4 (dl_g_pooled g se) \<and>
           m_se_pooled r = py_round 4 (dl_se_pooled g se) \<and>
           m_I2 r = py_round 1 (dl_I2 g se) \<and>
           m_Q r = py_round 3 (dl_Q g se) \<and>
           0 \<le> m_tau2 r \<and> 0 \<le> m_I2 r \<and> m_I2 r \<le> 100"
proof -
  define W where "W = map (\<lambda>x. 1 / x) (map (\<lambda>s. s ^ 2) se)"
  define gf where "gf = sum_list (map2 (*) W g) / sum_list W"
  define Q where "Q = sum_list (map2 (*) W (map (\<lambda>x. (x - gf) ^ 2) g))"
  define c where "c = sum_list W - sum_list (map (\<lambda>w. w ^ 2) W) / sum_list W"
  define tau2 where "tau2 = max 0 ((Q - (real (length g) - 1)) / c)"
  define Wre where "Wre = map (\<lambda>x. 1 / x) (map (\<lambda>v. v + tau2) (map (\<lambda>s. s ^ 2) se))"
  define gp where "gp = sum_list (map2 (*) Wre g) / sum_list Wre"
  define sp where "sp = sqrt (1 / sum_list Wre)"
  define I2 where "I2 = (if 0 < Q then max 0 ((Q - (real (length g) - 1)) / Q * 100) else 0)"
  have k: "g \<noteq> []" using k2 by auto
  have lenW: "length W = length g" by (simp add: W_def len)
  have lenWre: "length Wre = length g" by (simp add: Wre_def len)
  have Wpos: "\<forall>w\<in>set W. 0 < w" using pos by (auto simp: W_def)
  have W_ne: "W \<noteq> []" using k lenW by auto
  have SW: "0 < sum_list W" using W_ne Wpos by (rule sum_list_pos_real)
  have "sum_list (map (\<lambda>w. w ^ 2) W) < (sum_list W) ^ 2"
    using k2 Wpos by (intro sum_squares_less) (simp_all add: lenW)
  then have "sum_list (map (\<lambda>w. w ^ 2) W) / sum_list W < sum_list W"
    using SW by (simp add: pos_divide_less_eq power2_eq_square)
  then have c_pos: "0 < c" by (simp add: c_def)
  then have c0: "c \<noteq> 0" by simp
  obtain r where run: "random_effects_meta scipy g se = Ok (MetaEstimate r)"
    and r: "m_g_pooled r = py_round 4 gp" "m_se_pooled r = py_round 4 sp"
      "m_Q r = py_round 3 Q" "m_I2 r = py_round 1 I2" "m_tau2 r = py_round 4 tau2"
    using random_effects_meta_run [OF len k pos W_def gf_def Q_def c_def c0 tau2_def Wre_def
        gp_def sp_def I2_def, of scipy] by blast
  have Wn: "W ! i = dl_w se i" if "i < length g" for i
    using that by (simp add: W_def dl_w_def len)
  have sW: "sum_list W = (\<Sum>i<length g. dl_w se i)"
    using sum_list_map_nth [of "\<lambda>x. x" W] by (simp add: lenW Wn)
  have sWg: "sum_list (map2 (*) W g) = (\<Sum>i<length g. dl_w se i * g ! i)"
    using sum_list_map2_nth [of W g "(*)"] by (simp add: lenW Wn)
  have gf_eq: "gf = dl_g_fixed g se" by (simp add: gf_def dl_g_fixed_def sW sWg)
  have Q_eq: "Q = dl_Q g se"
    using sum_list_map2_nth [of W "map (\<lambda>x. (x - gf) ^ 2) g" "(*)"]
    by (simp add: Q_def dl_Q_def lenW Wn gf_eq)
  have sW2: "sum_list (map (\<lambda>w. w ^ 2) W) = (\<Sum>i<length g. (dl_w se i) ^ 2)"
    using sum_list_map_nth [of "\<lambda>w. w ^ 2" W] by (simp add: lenW Wn)
  have c_eq: "c = dl_c g se" by (simp add: c_def dl_c_def sW sW2)
  have tau2_eq: "tau2 = dl_tau2 g se" by (simp add: tau2_def dl_tau2_def Q_eq c_eq)
  have Wren: "Wre ! i = dl_w_re g se i" if "i < length g" for i
    using that by (simp add: Wre_def dl_w_re_def len tau2_eq)
  have sWre: "sum_list Wre = (\<Sum>i<length g. dl_w_re g se i)"
    using sum_list_map_nth [of "\<lambda>x. x" Wre] by (simp add: lenWre Wren)
  have sWreg: "sum_list (map2 (*) Wre g) = (\<Sum>i<length g. dl_w_re g se i * g ! i)"
    using sum_list_map2_nth [of Wre g "(*)"] by (simp add: lenWre Wren)
  have gp_eq: "gp = dl_g_pooled g se" by (simp add: gp_def dl_g_pooled_def sWre sWreg)
  have sp_eq: "sp = dl_se_pooled g se" by (simp add: sp_def dl_se_pooled_def sWre)
  have I2_eq: "I2 = dl_I2 g se" by (simp add: I2_def dl_I2_def Q_eq)
  have tau2_nn: "0 \<le> tau2" by (simp add: tau2_def)
  have I2_nn: "0 \<le> I2" by (simp add: I2_def)
  have I2_le: "I2 \<le> 100"
  proof (cases "0 < Q")
    case True
    define x where "x = (Q - (real (length g) - 1)) / Q"
    have "1 \<le> real (length g)" using k2 by simp
    then have "Q - (real (length g) - 1) \<le> Q" by simp
    then have "x \<le> 1" using True by (simp add: x_def pos_divide_le_eq)
    then have "max 0 (x * 100) \<le> 100" by simp
    moreover have "I2 = max 0 (x * 100)" using True by (simp only: I2_def x_def if_True)
    ultimately show ?thesis by simp
  next
    case False
    then show ?thesis by (simp add: I2_def)
  qed
  have "0 \<le> m_tau2 r" using tau2_nn by (simp add: r py_round_nonneg)
  moreover have "0 \<le> m_I2 r" using I2_nn by (simp add: r py_round_nonneg)
  moreover have "m_I2 r \<le> 100" unfolding r using I2_le by (rule py_round_le_100)
  ultimately show ?thesis
    using run r by (simp add: tau2_eq gp_eq sp_eq I2_eq Q_eq)
qed

theorem random_effects_meta_dersimonian_laird_witness:
  "length [1 / 2, 1 / 2 :: real] = length [0 :: real, 1] \<and> 2 \<le> length [0 :: real, 1] \<and>
   (0 :: real) < 1 / 2 \<and>
   (\<exists>r. random_effects_meta None [0, 1] [1 / 2, 1 / 2] = Ok (MetaEstimate r) \<and>
        m_tau2 r = py_round 4 (dl_tau2 [0, 1] [1 / 2, 1 / 2]) \<and>
        m_g_pooled r = py_round 4 (dl_g_pooled [0, 1] [1 / 2, 1 / 2]) \<and>
        m_se_pooled r = py_round 4 (dl_se_pooled [0, 1] [1 / 2, 1 / 2]) \<and>
        m_I2 r = py_round 1 (dl_I2 [0, 1] [1 / 2, 1 / 2]) \<and>
        m_Q r = py_round 3 (dl_Q [0, 1] [1 / 2, 1 / 2]) \<and>
        0 \<le> m_tau2 r \<and> 0 \<le> m_I2 r \<and> m_I2 r \<le> 100)"
  using random_effects_meta_dersimonian_laird [of "[1 / 2, 1 / 2]" "[0, 1]" None] by simp

section \<open>The small-sample correction is applied on every conversion path\<close>

lemma thn_assoc: "thn (thn m f) h = thn m (\<lambda>x. thn (f x) h)"
  by (cases m) simp_all

lemma thn_eq_Ok: "thn m f = Ok y \<longleftrightarrow> (\<exists>x. m = Ok x \<and> f x = Ok y)"
  by (cases m) simp_all

lemma thn_eq_Raise: "thn m f = Raise e \<longleftrightarrow> m = Raise e \<or> (\<exists>x. m = Ok x \<and> f x = Raise e)"
  by (cases m) simp_all

lemma cohens_d_g:
  "cohens_d_to_hedges_g d n1 n2 = Ok (g, se) \<Longrightarrow> g = sval d * hedges_J n1 n2"
  by (auto simp: cohens_d_to_hedges_g_def hedges_J_def Let_def thn_eq_Ok algebra_simps)

lemma cohens_d_returns:
  assumes "0 < n1" "0 < n2"
  shows "cohens_d_to_hedges_g d n1 n2 =
           Ok (sval d * hedges_J n1 n2,
               sqrt (of_int (n1 + n2) / of_int (n1 * n2)
                     + (sval d * hedges_J n1 n2) ^ 2 / of_int (2 * (n1 + n2))))"
proof -
  have r1: "0 < real_of_int n1" and r2: "0 < real_of_int n2" using assms by simp_all
  have p: "0 < real_of_int n1 * real_of_int n2" using r1 r2 by simp
  have n: "0 < real_of_int n1 + real_of_int n2" using r1 r2 by simp
  have a: "0 \<le> (real_of_int n1 + real_of_int n2) / (real_of_int n1 * real_of_int n2)"
    using p n by (intro divide_nonneg_pos) simp_all
  have b: "0 \<le> (sval d * hedges_J n1 n2) ^ 2 / (2 * (real_of_int n1 + real_of_int n2))"
    using n by (intro divide_nonneg_pos) simp_all
  have j: "1 - 3 / real_of_int (4 * (n1 + n2 - 2) - 1) = hedges_J n1 n2"
    by (simp add: hedges_J_def algebra_simps)
  have nf: "\<not> (real_of_int n1 + real_of_int n2) / (real_of_int n1 * real_of_int n2)
              + (sval d * hedges_J n1 n2) ^ 2 / (2 * (real_of_int n1 + real_of_int n2)) < 0"
    using a b by linarith
  have n0: "real_of_int n1 + real_of_int n2 \<noteq> 0" using n by simp
  have z1: "real_of_int n1 \<noteq> 0" and z2: "real_of_int n2 \<noteq> 0" using r1 r2 by simp_all
  show ?thesis
    unfolding cohens_d_to_hedges_g_def Let_def j
    using n0 z1 z2 nf by (cases d) (simp_all add: py_div_def np_div_def np_sqrt_def)
qed

text \<open>
  C5. For \<open>n1 + n2 > 2\<close> the t, F and means/SDs conversions are the direct d-to-g conversion
  applied to the \<open>d\<close> of the documented formula chain, so every path multiplies its \<open>d\<close> by
  \<open>J = 1 - 3 / (4 * (n1 + n2 - 2) - 1)\<close>; with positive group sizes the direct conversion
  returns, and the t path is the direct conversion of \<open>t * sqrt((n1 + n2) / (n1 * n2))\<close>.
\<close>

theorem small_sample_correction_on_every_path:
  assumes "2 < n1 + n2"
  shows "t_to_hedges_g t n1 n2 = thn (t_to_d t n1 n2) (\<lambda>d. cohens_d_to_hedges_g (NpFloat d) n1 n2) \<and>
         f_to_hedges_g F n1 n2 = thn (np_sqrt F) (\<lambda>t. t_to_hedges_g t n1 n2) \<and>
         means_to_hedges_g m1 m2 sd1 sd2 n1 n2 =
           thn (means_to_d m1 m2 sd1 sd2 n1 n2) (\<lambda>d. cohens_d_to_hedges_g (NpFloat d) n1 n2) \<and>
         (\<forall>d g se. cohens_d_to_hedges_g d n1 n2 = Ok (g, se) \<longrightarrow> g = sval d * hedges_J n1 n2) \<and>
         (\<forall>g se. t_to_hedges_g t n1 n2 = Ok (g, se) \<longrightarrow>
            (\<exists>d. t_to_d t n1 n2 = Ok d \<and> g = d * hedges_J n1 n2)) \<and>
         (\<forall>g se. f_to_hedges_g F n1 n2 = Ok (g, se) \<longrightarrow>
            (\<exists>d. t_to_d (sqrt F) n1 n2 = Ok d \<and> g = d * hedges_J n1 n2)) \<and>
         (\<forall>g se. means_to_hedges_g m1 m2 sd1 sd2 n1 n2 = Ok (g, se) \<longrightarrow>
            (\<exists>d. means_to_d m1 m2 sd1 sd2 n1 n2 = Ok d \<and> g = d * hedges_J n1 n2)) \<and>
         (0 < n1 \<and> 0 < n2 \<longrightarrow>
            (\<exists>g se. cohens_d_to_hedges_g d0 n1 n2 = Ok (g, se)) \<and>
            t_to_hedges_g t n1 n2 =
              cohens_d_to_hedges_g (NpFloat (t * sqrt (of_int (n1 + n2) / of_int (n1 * n2)))) n1 n2)"
proof -
  have T: "t_to_hedges_g t n1 n2 = thn (t_to_d t n1 n2) (\<lambda>d. cohens_d_to_hedges_g (NpFloat d) n1 n2)" for t
    by (simp add: t_to_hedges_g_def t_to_d_def thn_assoc)
  have F: "f_to_hedges_g F n1 n2 = thn (np_sqrt F) (\<lambda>t. t_to_hedges_g t n1 n2)"
    by (simp add: f_to_hedges_g_def)
  have M: "means_to_hedges_g m1 m2 sd1 sd2 n1 n2 =
           thn (means_to_d m1 m2 sd1 sd2 n1 n2) (\<lambda>d. cohens_d_to_hedges_g (NpFloat d) n1 n2)"
    by (simp add: means_to_hedges_g_def means_to_d_def pooled_sd_def thn_assoc Let_def)
  have J: "\<forall>d g se. cohens_d_to_hedges_g d n1 n2 = Ok (g, se) \<longrightarrow> g = sval d * hedges_J n1 n2"
    using cohens_d_g by blast
  have TJ: "\<forall>g se. t_to_hedges_g t n1 n2 = Ok (g, se) \<longrightarrow>
            (\<exists>d. t_to_d t n1 n2 = Ok d \<and> g = d * hedges_J n1 n2)" for t
    unfolding T by (auto simp: thn_eq_Ok dest: cohens_d_g)
  have FJ: "\<forall>g se. f_to_hedges_g F n1 n2 = Ok (g, se) \<longrightarrow>
            (\<exists>d. t_to_d (sqrt F) n1 n2 = Ok d \<and> g = d * hedges_J n1 n2)"
    unfolding F using TJ by (auto simp: thn_eq_Ok np_sqrt_def split: if_splits)
  have MJ: "\<forall>g se. means_to_hedges_g m1 m2 sd1 sd2 n1 n2 = Ok (g, se) \<longrightarrow>
            (\<exists>d. means_to_d m1 m2 sd1 sd2 n1 n2 = Ok d \<and> g = d * hedges_J n1 n2)"
    unfolding M by (auto simp: thn_eq_Ok dest: cohens_d_g)
  have P: "0 < n1 \<and> 0 < n2 \<longrightarrow>
            (\<exists>g se. cohens_d_to_hedges_g d0 n1 n2 = Ok (g, se)) \<and>
            t_to_hedges_g t n1 n2 =
              cohens_d_to_hedges_g (NpFloat (t * sqrt (of_int (n1 + n2) / of_int (n1 * n2)))) n1 n2"
  proof
    assume pos: "0 < n1 \<and> 0 < n2"
    then have r1: "0 < real_of_int n1" and r2: "0 < real_of_int n2" by simp_all
    have p: "0 < real_of_int n1 * real_of_int n2" using r1 r2 by simp
    have n: "0 < real_of_int n1 + real_of_int n2" using r1 r2 by simp
    have q: "0 \<le> (real_of_int n1 + real_of_int n2) / (real_of_int n1 * real_of_int n2)"
      using p n by (intro divide_nonneg_pos) simp_all
    then have q': "\<not> (real_of_int n1 + real_of_int n2) / (real_of_int n1 * real_of_int n2) < 0"
      by linarith
    have z1: "real_of_int n1 \<noteq> 0" and z2: "real_of_int n2 \<noteq> 0" using r1 r2 by simp_all
    have "t_to_d t n1 n2 = Ok (t * sqrt (of_int (n1 + n2) / of_int (n1 * n2)))"
      using z1 z2 q' by (simp add: t_to_d_def py_div_def np_sqrt_def)
    then show "(\<exists>g se. cohens_d_to_hedges_g d0 n1 n2 = Ok (g, se)) \<and>
            t_to_hedges_g t n1 n2 =
              cohens_d_to_hedges_g (NpFloat (t * sqrt (of_int (n1 + n2) / of_int (n1 * n2)))) n1 n2"
      using cohens_d_returns [of n1 n2 d0] pos by (simp add: T)
  qed
  show ?thesis using T F M J TJ FJ MJ P by blast
qed

theorem small_sample_correction_on_every_path_witness:
  "(2 :: int) < 30 + 30 \<and>
   (\<exists>g se. cohens_d_to_hedges_g (PyFloat (65 / 100)) 30 30 = Ok (g, se) \<and>
      g = 65 / 100 * hedges_J 30 30) \<and>
   t_to_hedges_g (245 / 100) 30 30 =
     cohens_d_to_hedges_g (NpFloat (245 / 100 * sqrt (of_int (30 + 30) / of_int (30 * 30)))) 30 30"
proof -
  have h: "(2 :: int) < 30 + 30" by simp
  note T = small_sample_correction_on_every_path
    [OF h, of "245 / 100" 0 0 0 0 0 "PyFloat (65 / 100)"]
  have J: "\<forall>d g se. cohens_d_to_hedges_g d 30 30 = Ok (g, se) \<longrightarrow> g = sval d * hedges_J 30 30"
    using T by (elim conjE)
  have P: "(0 :: int) < 30 \<and> (0 :: int) < 30 \<longrightarrow>
      (\<exists>g se. cohens_d_to_hedges_g (PyFloat (65 / 100)) 30 30 = Ok (g, se)) \<and>
      t_to_hedges_g (245 / 100) 30 30 =
        cohens_d_to_hedges_g (NpFloat (245 / 100 * sqrt (of_int (30 + 30) / of_int (30 * 30)))) 30 30"
    using T by (elim conjE)
  then obtain g se where r: "cohens_d_to_hedges_g (PyFloat (65 / 100)) 30 30 = Ok (g, se)"
    and t: "t_to_hedges_g (245 / 100) 30 30 =
        cohens_d_to_hedges_g (NpFloat (245 / 100 * sqrt (of_int (30 + 30) / of_int (30 * 30)))) 30 30"
    by auto
  have "g = 65 / 100 * hedges_J 30 30" using J r by fastforce
  then show ?thesis using h r t by blast
qed

section \<open>Dispatch, caught exceptions and the schema of failed results\<close>

lemma raises_Raise [simp]: "raises (Raise e)"
  by (simp add: raises_def)

lemma raises_iff: "raises m \<longleftrightarrow> (\<exists>e. m = Raise e)"
  by (cases m) (simp_all add: raises_def)




















lemma convert_dispatch:
  "convert data =
     (case recognized_shape data of
        None \<Rightarrow> Ok None
      | Some m \<Rightarrow> thn (conversion_of m data) (\<lambda>x. Ok (Some x)))"
  by (simp add: convert_def recognized_shape_def shape_priority_def shape_present_def
      conversion_of_def)

lemma recognized_shape_in_priority:
  "recognized_shape data = Some m \<Longrightarrow> m \<in> set shape_priority \<and> shape_present data m"
  by (auto simp: recognized_shape_def find_Some_iff)


lemma conversion_of_simps:
  "conversion_of ''direct_hedges_g'' data = case_direct data"
  "conversion_of ''cohen_d_conversion'' data = case_cohens_d data"
  "conversion_of ''means_sds'' data = case_means data"
  "conversion_of ''prepost'' data = case_prepost data"
  "conversion_of ''t_statistic'' data = case_t data"
  "conversion_of ''f_statistic'' data = case_f data"
  "conversion_of ''correlation'' data = case_r data"
  by (simp_all add: conversion_of_def)


lemma shape_priority_cases:
  "m \<in> set shape_priority \<Longrightarrow>
     m = ''direct_hedges_g'' \<or> m = ''cohen_d_conversion'' \<or> m = ''means_sds'' \<or>
     m = ''prepost'' \<or> m = ''t_statistic'' \<or> m = ''f_statistic'' \<or> m = ''correlation''"
  by (simp add: shape_priority_def)



lemma validate_effect_size_Ok:
  assumes "validate_effect_size g se n1 n2 mg mn = Ok v"
  shows "\<not> list_ex is_failure_issue (v_issues v)" and "v_g v = g" and "v_se v = se"
    and "v_ci_95 v = (g - 1.96 * se, g + 1.96 * se)"
    and "v_valid v \<longleftrightarrow> v_issues v = []"
    and "v_valid v \<Longrightarrow> \<exists>x1 x2. num_of n1 = Ok x1 \<and> of_int mn \<le> x1 \<and> num_of n2 = Ok x2 \<and> of_int mn \<le> x2"
  using assms
  by (auto simp: validate_effect_size_def Let_def thn_eq_Ok is_failure_issue_def split: if_splits)

lemma validate_step_Ok:
  assumes "validate_step data g se = Ok v"
  shows "\<not> list_ex is_failure_issue (v_issues v)" and "v_g v = g" and "v_se v = se"
    and "v_ci_95 v = (g - 1.96 * se, g + 1.96 * se)"
    and "v_valid v \<Longrightarrow> \<exists>h x1 x2. floordiv2 (get_default data ''n'' (PInt 0)) = Ok h \<and>
           num_of (get_default data ''n1'' h) = Ok x1 \<and> 10 \<le> x1 \<and>
           num_of (get_default data ''n2'' h) = Ok x2 \<and> 10 \<le> x2"
proof -
  obtain h where h: "floordiv2 (get_default data ''n'' (PInt 0)) = Ok h"
    and v: "validate_effect_size g se (get_default data ''n1'' h) (get_default data ''n2'' h) 5.0 10 = Ok v"
    using assms by (auto simp: validate_step_def Let_def thn_eq_Ok)
  show "\<not> list_ex is_failure_issue (v_issues v)" "v_g v = g" "v_se v = se"
    "v_ci_95 v = (g - 1.96 * se, g + 1.96 * se)"
    using validate_effect_size_Ok [OF v] by simp_all
  show "\<exists>h x1 x2. floordiv2 (get_default data ''n'' (PInt 0)) = Ok h \<and>
           num_of (get_default data ''n1'' h) = Ok x1 \<and> 10 \<le> x1 \<and>
           num_of (get_default data ''n2'' h) = Ok x2 \<and> 10 \<le> x2" if "v_valid v"
    using validate_effect_size_Ok(6) [OF v that] h by auto
qed

lemma extract_effect_size_cases:
  assumes "extract_effect_size data = Ok r"
  obtains
    (no_shape) "convert data = Ok None"
      "r = initial_result\<lparr>r_issues := [IssueText ''No recognized effect size format found'']\<rparr>"
  | (convert_raised) e where "convert data = Raise e" "r = caught initial_result e"
  | (validate_raised) g se m e where "convert data = Ok (Some (g, se, m))"
      "validate_step data g se = Raise e"
      "r = caught (initial_result\<lparr>r_g := Some g, r_se := Some se, r_method := Some m\<rparr>) e"
  | (validated) g se m v where "convert data = Ok (Some (g, se, m))"
      "validate_step data g se = Ok v"
      "r = update_validation (initial_result\<lparr>r_g := Some g, r_se := Some se, r_method := Some m\<rparr>) v"
  using assms
  by (auto simp: extract_effect_size_def Let_def initial_result_def
      split: res.splits option.splits prod.splits)

lemma caught_fields:
  "r_valid (caught r e) = r_valid r" "r_warnings (caught r e) = r_warnings r"
  "r_ci_95 (caught r e) = r_ci_95 r" "r_n1 (caught r e) = r_n1 r" "r_n2 (caught r e) = r_n2 r"
  "r_issues (caught r e) = r_issues r @ [ExtractionFailed e]"
  "r_method (caught r e) = r_method r" "r_g (caught r e) = r_g r" "r_se (caught r e) = r_se r"
  by (simp_all add: caught_def)

lemma raises_not_Ok: "raises m \<Longrightarrow> m \<noteq> Ok x"
  by (auto simp: raises_iff)

lemma extract_failure_schema:
  assumes "extract_effect_size data = Ok r"
  shows "(extraction_failed r \<longleftrightarrow>
            convert data = Ok None \<or> raises (convert data) \<or>
            (\<exists>g se m. convert data = Ok (Some (g, se, m)) \<and> raises (validate_step data g se))) \<and>
         (extraction_failed r \<longrightarrow>
            r_warnings r = None \<and> r_ci_95 r = None \<and> r_n1 r = None \<and> r_n2 r = None \<and>
            \<not> r_valid r) \<and>
         (\<not> extraction_failed r \<longrightarrow>
            r_warnings r \<noteq> None \<and> r_ci_95 r \<noteq> None \<and> r_n1 r \<noteq> None \<and> r_n2 r \<noteq> None \<and>
            r_g r \<noteq> None \<and> r_se r \<noteq> None \<and> r_method r \<noteq> None)"
  using assms
proof (cases rule: extract_effect_size_cases)
  case no_shape
  then show ?thesis
    by (simp add: extraction_failed_def is_failure_issue_def initial_result_def)
next
  case (convert_raised e)
  then show ?thesis
    by (simp add: extraction_failed_def is_failure_issue_def initial_result_def caught_fields)
next
  case (validate_raised g se m e)
  then show ?thesis
    by (simp add: extraction_failed_def is_failure_issue_def initial_result_def caught_fields)
next
  case (validated g se m v)
  have "\<not> list_ex is_failure_issue (v_issues v)" using validated(2) by (rule validate_step_Ok(1))
  then show ?thesis using validated
    by (simp add: extraction_failed_def update_validation_def raises_def)
qed

text \<open>
  C10. A result of \<open>extract_effect_size\<close> that records a failure (no recognized shape, or a
  caught exception) has none of the keys \<open>warnings\<close>, \<open>ci_95\<close>, \<open>n1\<close>, \<open>n2\<close> and is not
  valid; every other result went through validation and has all of them, with \<open>g\<close>,
  \<open>se\<close> and \<open>method\<close> set.
\<close>

theorem failed_extraction_omits_validation_keys:
  assumes "extract_effect_size data = Ok r"
  shows "(extraction_failed r \<longleftrightarrow>
            convert data = Ok None \<or> raises (convert data) \<or>
            (\<exists>g se m. convert data = Ok (Some (g, se, m)) \<and> raises (validate_step data g se))) \<and>
         (extraction_failed r \<longrightarrow>
            r_warnings r = None \<and> r_ci_95 r = None \<and> r_n1 r = None \<and> r_n2 r = None \<and>
            \<not> r_valid r) \<and>
         (\<not> extraction_failed r \<longrightarrow>
            r_warnings r \<noteq> None \<and> r_ci_95 r \<noteq> None \<and> r_n1 r \<noteq> None \<and> r_n2 r \<noteq> None \<and>
            r_g r \<noteq> None \<and> r_se r \<noteq> None \<and> r_method r \<noteq> None)"
  using assms by (rule extract_failure_schema)

lemma ex_missing_run:
  "extract_effect_size ex_missing =
     Ok (initial_result\<lparr>r_issues := [ExtractionFailed (KeyError ''n1'')]\<rparr>)"
  by (simp add: extract_effect_size_def convert_def not_none_def ex_missing_def case_cohens_d_def
      float_of_key_def int_of_key_def subscript_def caught_def initial_result_def)

theorem failed_extraction_omits_validation_keys_witness:
  "extract_effect_size ex_missing =
     Ok (initial_result\<lparr>r_issues := [ExtractionFailed (KeyError ''n1'')]\<rparr>) \<and>
   extraction_failed (initial_result\<lparr>r_issues := [ExtractionFailed (KeyError ''n1'')]\<rparr>) \<and>
   r_warnings (initial_result\<lparr>r_issues := [ExtractionFailed (KeyError ''n1'')]\<rparr>) = None \<and>
   r_ci_95 (initial_result\<lparr>r_issues := [ExtractionFailed (KeyError ''n1'')]\<rparr>) = None"
  using failed_extraction_omits_validation_keys [OF ex_missing_run] ex_missing_run
  by (simp add: extraction_failed_def is_failure_issue_def)



section \<open>Validity and the sign of the standard error\<close>

lemma sqrt_1_25: "sqrt (1 / 25) = 1 / 5"
  by (simp add: real_sqrt_divide)

lemma sqrt_4_25: "sqrt (4 / 25) = 2 / 5"
  by (simp add: real_sqrt_divide)

text \<open>
  The claim C3 as stated fails: a direct \<open>hedges_g\<close> record with a total \<open>n\<close> but no \<open>se_g\<close>,
  \<open>n1\<close> or \<open>n2\<close> keeps the default standard error 0 and is returned as valid.
\<close>

theorem extract_valid_with_zero_se:
  "extract_effect_size ex_total_n =
     Ok \<lparr> r_g = Some (1 / 2), r_se = Some 0, r_method = Some ''direct_hedges_g'',
          r_valid = True, r_issues = [], r_warnings = Some [SEUnusuallySmall 0],
          r_ci_95 = Some (1 / 2, 1 / 2), r_n1 = Some (PInt 25), r_n2 = Some (PInt 25) \<rparr>"
  by (simp add: extract_effect_size_def convert_def not_none_def ex_total_n_def case_direct_def
      float_of_key_def subscript_def get_default_def validate_step_def validate_effect_size_def
      Let_def initial_result_def update_validation_def py_div_def np_sqrt_nan_def
      sqrt_1_25 sqrt_4_25)

lemma cohens_se_pos:
  assumes "0 < n1" "0 < n2" "cohens_d_to_hedges_g d n1 n2 = Ok (g, se)"
  shows "0 < se"
proof -
  have r1: "0 < real_of_int n1" and r2: "0 < real_of_int n2" using assms by simp_all
  have a: "0 < real_of_int (n1 + n2) / real_of_int (n1 * n2)"
    using r1 r2 by (simp add: divide_pos_pos)
  have b: "0 \<le> (sval d * hedges_J n1 n2) ^ 2 / real_of_int (2 * (n1 + n2))"
    using r1 r2 by (intro divide_nonneg_pos) simp_all
  have "Ok (g, se) = Ok (sval d * hedges_J n1 n2,
               sqrt (real_of_int (n1 + n2) / real_of_int (n1 * n2)
                     + (sval d * hedges_J n1 n2) ^ 2 / real_of_int (2 * (n1 + n2))))"
    using assms(3) cohens_d_returns [OF assms(1,2), of d] by (simp only:)
  then have "se = sqrt (real_of_int (n1 + n2) / real_of_int (n1 * n2)
                     + (sval d * hedges_J n1 n2) ^ 2 / real_of_int (2 * (n1 + n2)))"
    by (simp only: res.inject prod.inject)
  moreover have "0 < real_of_int (n1 + n2) / real_of_int (n1 * n2)
                     + (sval d * hedges_J n1 n2) ^ 2 / real_of_int (2 * (n1 + n2))"
    using a b by linarith
  ultimately show ?thesis by simp
qed

lemma cohens_se_pos_equal:
  assumes "cohens_d_to_hedges_g d m m = Ok (g, se)"
  shows "0 < se"
proof -
  obtain a b where a: "py_div (of_int (m + m)) (of_int (m * m)) = Ok a"
    and b: "scalar_div d (g ^ 2) (of_int (2 * (m + m))) = Ok b"
    and s: "np_sqrt (a + b) = Ok se"
    using assms by (auto simp: cohens_d_to_hedges_g_def Let_def thn_eq_Ok)
  have m0: "m \<noteq> 0" using a by (auto simp: py_div_def split: if_splits)
  have av: "a = real_of_int (m + m) / real_of_int (m * m)"
    using a by (auto simp: py_div_def split: if_splits)
  have bv: "b = g ^ 2 / real_of_int (2 * (m + m))"
    using b by (cases d) (auto simp: py_div_def np_div_def split: if_splits)
  have nn: "\<not> a + b < 0" using s by (auto simp: np_sqrt_def split: if_splits)
  have "0 < m"
  proof (rule ccontr)
    assume "\<not> 0 < m"
    then have neg: "real_of_int m < 0" using m0 by simp
    have "real_of_int (m + m) < 0" using neg by simp
    moreover have "0 < real_of_int (m * m)" using mult_neg_neg [OF neg neg] by simp
    ultimately have "a < 0" unfolding av by (rule divide_neg_pos)
    moreover have "b \<le> 0" unfolding bv using neg by (intro divide_nonneg_neg) simp_all
    ultimately show False using nn by linarith
  qed
  then show ?thesis using cohens_se_pos assms by blast
qed

lemma prepost_se_pos:
  assumes "r < 1" "prepost_to_hedges_g m_pre m_post sd_pre sd_post n r = Ok (g, se)"
  shows "0 < se"
proof -
  obtain a b where a: "py_div (2 * (1 - r)) (of_int n) = Ok a"
    and b: "py_div (g ^ 2) (of_int (2 * n)) = Ok b"
    and s: "np_sqrt (a + b) = Ok se"
    using assms(2) by (auto simp: prepost_to_hedges_g_def Let_def thn_eq_Ok)
  have n0: "n \<noteq> 0" and av: "a = 2 * (1 - r) / real_of_int n"
    using a by (auto simp: py_div_def split: if_splits)
  have bv: "b = g ^ 2 / real_of_int (2 * n)"
    using b by (auto simp: py_div_def split: if_splits)
  have nn: "\<not> a + b < 0" and sv: "se = sqrt (a + b)"
    using s by (auto simp: np_sqrt_def split: if_splits)
  have r1: "0 < 2 * (1 - r)" using assms(1) by simp
  have "0 < n"
  proof (rule ccontr)
    assume "\<not> 0 < n"
    then have neg: "real_of_int n < 0" using n0 by simp
    have "a < 0" unfolding av using r1 neg by (rule divide_pos_neg)
    moreover have "b \<le> 0" unfolding bv using neg by (intro divide_nonneg_neg) simp_all
    ultimately show False using nn by linarith
  qed
  then have pos: "0 < real_of_int n" by simp
  have "0 < a" unfolding av using r1 pos by (rule divide_pos_pos)
  moreover have "0 \<le> b" unfolding bv using pos by (intro divide_nonneg_pos) simp_all
  ultimately have "0 < a + b" by linarith
  then show ?thesis by (simp add: sv)
qed

lemma hedges_g_variance_pos:
  assumes "0 < n1" "0 < n2" "hedges_g_variance g n1 n2 = Ok v"
  shows "0 < v"
proof -
  have r1: "0 < real_of_int n1" and r2: "0 < real_of_int n2" using assms by simp_all
  have a: "0 < real_of_int (n1 + n2) / real_of_int (n1 * n2)"
    using r1 r2 by (simp add: divide_pos_pos)
  have b: "0 \<le> g ^ 2 / real_of_int (2 * (n1 + n2))"
    using r1 r2 by (intro divide_nonneg_pos) simp_all
  have "v = real_of_int (n1 + n2) / real_of_int (n1 * n2) + g ^ 2 / real_of_int (2 * (n1 + n2))"
    using assms(3)
    by (auto simp: hedges_g_variance_def Let_def thn_eq_Ok py_div_def split: if_splits)
  then show ?thesis using a b by linarith
qed

lemma to_int_ge_10:
  assumes "to_int v = Ok i" "num_of v = Ok x" "10 \<le> x"
  shows "10 \<le> i"
proof (cases v)
  case (PFloat y)
  then have "10 \<le> y" and i: "i = \<lfloor>y\<rfloor>" using assms by (auto split: if_splits)
  then have "\<lfloor>10 :: real\<rfloor> \<le> \<lfloor>y\<rfloor>" by (intro floor_mono)
  then show ?thesis by (simp add: i)
qed (use assms in \<open>auto split: if_splits\<close>)

lemma int_of_key_Ok:
  "int_of_key data k = Ok i \<Longrightarrow> \<exists>v. data k = Some v \<and> to_int v = Ok i"
  by (auto simp: int_of_key_def subscript_def thn_eq_Ok split: option.splits)

lemma valid_group_sizes:
  assumes v: "validate_step data g se = Ok v" and ok: "v_valid v"
    and k1: "int_of_key data ''n1'' = Ok i1" and k2: "int_of_key data ''n2'' = Ok i2"
  shows "10 \<le> i1 \<and> 10 \<le> i2"
proof -
  obtain h x1 x2 where x1: "num_of (get_default data ''n1'' h) = Ok x1" "10 \<le> x1"
    and x2: "num_of (get_default data ''n2'' h) = Ok x2" "10 \<le> x2"
    using validate_step_Ok(5) [OF v ok] by blast
  obtain v1 where v1: "data ''n1'' = Some v1" "to_int v1 = Ok i1"
    using int_of_key_Ok [OF k1] by blast
  obtain v2 where v2: "data ''n2'' = Some v2" "to_int v2 = Ok i2"
    using int_of_key_Ok [OF k2] by blast
  have "10 \<le> i1" using to_int_ge_10 [OF v1(2)] x1 v1(1) by (simp add: get_default_def)
  moreover have "10 \<le> i2" using to_int_ge_10 [OF v2(2)] x2 v2(1) by (simp add: get_default_def)
  ultimately show ?thesis by simp
qed

lemma case_direct_recomputed:
  assumes c: "case_direct data = Ok (g, se, m)" and nk: "\<not> se_kept data"
    and d: "not_none data ''hedges_g''"
  shows "\<exists>i1 i2 v. int_of_key data ''n1'' = Ok i1 \<and> int_of_key data ''n2'' = Ok i2 \<and>
           hedges_g_variance g i1 i2 = Ok v \<and> np_sqrt v = Ok se"
proof -
  have z: "to_float (get_default data ''se_g'' (get_default data ''se'' (PInt 0))) = Ok 0"
    and p: "data ''n1'' \<noteq> None" "data ''n2'' \<noteq> None"
    using nk d by (auto simp: se_kept_def)
  show ?thesis using c z p
    by (auto simp: case_direct_def thn_eq_Ok)
qed

lemma case_direct_kept:
  assumes c: "case_direct data = Ok (g, se, m)" and k: "se_kept data"
  shows "to_float (get_default data ''se_g'' (get_default data ''se'' (PInt 0))) = Ok se"
  using c k by (auto simp: case_direct_def thn_eq_Ok se_kept_def split: if_splits)

lemma conversion_se_pos:
  assumes r0: "recognized_shape data = Some m0"
    and c0: "conversion_of m0 data = Ok (g, se, m)"
    and v: "validate_step data g se = Ok v" and ok: "v_valid v"
    and nk: "\<not> se_kept data"
    and pp: "m0 = ''prepost'' \<longrightarrow> prepost_r_below_one data"
  shows "0 < se"
proof -
  have pr: "m0 \<in> set shape_priority" and sp: "shape_present data m0"
    using r0 by (simp_all add: recognized_shape_in_priority)
  from shape_priority_cases [OF pr] show ?thesis
  proof (elim disjE)
    assume m: "m0 = ''direct_hedges_g''"
    have d: "not_none data ''hedges_g''" using sp unfolding m by (simp add: shape_present_def)
    have c: "case_direct data = Ok (g, se, m)" using c0 unfolding m conversion_of_simps .
    obtain i1 i2 var where k: "int_of_key data ''n1'' = Ok i1" "int_of_key data ''n2'' = Ok i2"
      and var: "hedges_g_variance g i1 i2 = Ok var" and s: "np_sqrt var = Ok se"
      using case_direct_recomputed [OF c nk d] by blast
    have "10 \<le> i1 \<and> 10 \<le> i2" using v ok k by (rule valid_group_sizes)
    then have "0 < var" using hedges_g_variance_pos [OF _ _ var] by simp
    then show ?thesis using s by (auto simp: np_sqrt_def split: if_splits)
  next
    assume m: "m0 = ''cohen_d_conversion''"
    have c: "case_cohens_d data = Ok (g, se, m)" using c0 unfolding m conversion_of_simps .
    then obtain d i1 i2 where k: "int_of_key data ''n1'' = Ok i1" "int_of_key data ''n2'' = Ok i2"
      and h: "cohens_d_to_hedges_g d i1 i2 = Ok (g, se)"
      by (auto simp: case_cohens_d_def thn_eq_Ok)
    have "10 \<le> i1 \<and> 10 \<le> i2" using v ok k by (rule valid_group_sizes)
    then show ?thesis using cohens_se_pos [OF _ _ h] by simp
  next
    assume m: "m0 = ''means_sds''"
    have c: "case_means data = Ok (g, se, m)" using c0 unfolding m conversion_of_simps .
    then obtain d i1 i2 where k: "int_of_key data ''n1'' = Ok i1" "int_of_key data ''n2'' = Ok i2"
      and h: "cohens_d_to_hedges_g d i1 i2 = Ok (g, se)"
      by (auto simp: case_means_def means_to_hedges_g_def Let_def thn_eq_Ok)
    have "10 \<le> i1 \<and> 10 \<le> i2" using v ok k by (rule valid_group_sizes)
    then show ?thesis using cohens_se_pos [OF _ _ h] by simp
  next
    assume m: "m0 = ''prepost''"
    have c: "case_prepost data = Ok (g, se, m)" using c0 unfolding m conversion_of_simps .
    then obtain a b c1 d1 n r where r: "to_float (get_default data ''r_prepost'' (PFloat 0.5)) = Ok r"
      and h: "prepost_to_hedges_g a b c1 d1 n r = Ok (g, se)"
      by (auto simp: case_prepost_def thn_eq_Ok)
    have "r < 1" using pp m r by (simp add: prepost_r_below_one_def)
    then show ?thesis using h by (rule prepost_se_pos)
  next
    assume m: "m0 = ''t_statistic''"
    have c: "case_t data = Ok (g, se, m)" using c0 unfolding m conversion_of_simps .
    then obtain d i1 i2 where k: "int_of_key data ''n1'' = Ok i1" "int_of_key data ''n2'' = Ok i2"
      and h: "cohens_d_to_hedges_g d i1 i2 = Ok (g, se)"
      by (auto simp: case_t_def t_to_hedges_g_def thn_eq_Ok)
    have "10 \<le> i1 \<and> 10 \<le> i2" using v ok k by (rule valid_group_sizes)
    then show ?thesis using cohens_se_pos [OF _ _ h] by simp
  next
    assume m: "m0 = ''f_statistic''"
    have c: "case_f data = Ok (g, se, m)" using c0 unfolding m conversion_of_simps .
    then obtain d i1 i2 where k: "int_of_key data ''n1'' = Ok i1" "int_of_key data ''n2'' = Ok i2"
      and h: "cohens_d_to_hedges_g d i1 i2 = Ok (g, se)"
      by (auto simp: case_f_def f_to_hedges_g_def t_to_hedges_g_def thn_eq_Ok)
    have "10 \<le> i1 \<and> 10 \<le> i2" using v ok k by (rule valid_group_sizes)
    then show ?thesis using cohens_se_pos [OF _ _ h] by simp
  next
    assume m: "m0 = ''correlation''"
    have c: "case_r data = Ok (g, se, m)" using c0 unfolding m conversion_of_simps .
    then obtain d n where h: "cohens_d_to_hedges_g d (n div 2) (n div 2) = Ok (g, se)"
      by (auto simp: case_r_def r_to_hedges_g_def Let_def thn_eq_Ok)
    then show ?thesis by (rule cohens_se_pos_equal)
  qed
qed

text \<open>
  C3 (amended). In a valid result the standard error is strictly positive whenever it was
  computed by a conversion formula (every shape but a direct \<open>hedges_g\<close> record whose
  \<open>se_g\<close>/\<open>se\<close> is kept as supplied, or defaulted to 0), a pre-post record having
  \<open>r_prepost < 1\<close>; a kept standard error is returned unchanged; and \<open>ci_95\<close>, whenever
  present, is \<open>[g - 1.96 * se, g + 1.96 * se]\<close>.
\<close>

theorem valid_result_se_positive_when_computed:
  assumes run: "extract_effect_size data = Ok r"
  shows "(r_valid r \<and> \<not> se_kept data \<and>
            (recognized_shape data = Some ''prepost'' \<longrightarrow> prepost_r_below_one data) \<longrightarrow>
            (\<exists>s. r_se r = Some s \<and> 0 < s)) \<and>
         (r_valid r \<and> se_kept data \<longrightarrow>
            (\<exists>s. r_se r = Some s \<and>
               to_float (get_default data ''se_g'' (get_default data ''se'' (PInt 0))) = Ok s)) \<and>
         (\<forall>lo hi. r_ci_95 r = Some (lo, hi) \<longrightarrow>
            (\<exists>g s. r_g r = Some g \<and> r_se r = Some s \<and>
               lo = g - 1.96 * s \<and> hi = g + 1.96 * s))"
  using run
proof (cases rule: extract_effect_size_cases)
  case no_shape
  then show ?thesis by (simp add: initial_result_def)
next
  case (convert_raised e)
  then show ?thesis by (simp add: initial_result_def caught_fields)
next
  case (validate_raised g se m e)
  then show ?thesis by (simp add: initial_result_def caught_fields)
next
  case (validated g se m v)
  have vs: "v_g v = g" "v_se v = se" "v_ci_95 v = (g - 1.96 * se, g + 1.96 * se)"
    using validate_step_Ok(2-4) [OF validated(2)] by simp_all
  have rf: "r_valid r = v_valid v" "r_se r = Some se" "r_g r = Some g"
    "r_ci_95 r = Some (g - 1.96 * se, g + 1.96 * se)"
    using validated(3) vs by (simp_all add: update_validation_def)
  obtain m0 where r0: "recognized_shape data = Some m0"
    and c0: "conversion_of m0 data = Ok (g, se, m)"
    using validated(1) by (auto simp: convert_dispatch thn_eq_Ok split: option.splits)
  have A: "r_valid r \<and> \<not> se_kept data \<and>
            (recognized_shape data = Some ''prepost'' \<longrightarrow> prepost_r_below_one data) \<longrightarrow>
            (\<exists>s. r_se r = Some s \<and> 0 < s)"
  proof (intro impI, elim conjE)
    assume ok: "r_valid r" and nk: "\<not> se_kept data"
      and pp: "recognized_shape data = Some ''prepost'' \<longrightarrow> prepost_r_below_one data"
    have "0 < se"
      using r0 c0 validated(2) _ nk
    proof (rule conversion_se_pos)
      show "v_valid v" using ok rf by simp
      show "m0 = ''prepost'' \<longrightarrow> prepost_r_below_one data" using pp r0 by simp
    qed
    then show "\<exists>s. r_se r = Some s \<and> 0 < s" using rf by simp
  qed
  have B: "r_valid r \<and> se_kept data \<longrightarrow>
            (\<exists>s. r_se r = Some s \<and>
               to_float (get_default data ''se_g'' (get_default data ''se'' (PInt 0))) = Ok s)"
  proof (intro impI, elim conjE)
    assume k: "se_kept data"
    then have "not_none data ''hedges_g''" by (simp add: se_kept_def)
    then have "recognized_shape data = Some ''direct_hedges_g''"
      by (simp add: recognized_shape_def shape_priority_def shape_present_def)
    then have "case_direct data = Ok (g, se, m)" using r0 c0 by (simp add: conversion_of_simps)
    then show "\<exists>s. r_se r = Some s \<and>
               to_float (get_default data ''se_g'' (get_default data ''se'' (PInt 0))) = Ok s"
      using case_direct_kept k rf by blast
  qed
  show ?thesis using A B rf by simp
qed

lemma sqrt_81_3136: "sqrt (81 / 3136) = 9 / 56"
  by (rule real_sqrt_unique) (simp_all add: power2_eq_square)

lemma sqrt_1_81: "sqrt (1 / 81) = 1 / 9"
  by (rule real_sqrt_unique) (simp_all add: power2_eq_square)

lemma sqrt_1_16: "sqrt (1 / 16) = 1 / 4"
  by (rule real_sqrt_unique) (simp_all add: power2_eq_square)

lemma ex_d_run:
  "extract_effect_size ex_d =
     Ok \<lparr> r_g = Some 0, r_se = Some (9 / 56), r_method = Some ''cohen_d_conversion'',
          r_valid = True, r_issues = [], r_warnings = Some [],
          r_ci_95 = Some (- (63 / 200), 63 / 200), r_n1 = Some (PInt 64),
          r_n2 = Some (PInt 98) \<rparr>"
  by (simp add: extract_effect_size_def convert_def not_none_def ex_d_def case_cohens_d_def
      float_of_key_def int_of_key_def subscript_def get_default_def cohens_d_to_hedges_g_def
      validate_step_def validate_effect_size_def np_sqrt_def
      Let_def initial_result_def update_validation_def py_div_def np_sqrt_nan_def
      sqrt_81_3136 sqrt_1_81 sqrt_1_16)

theorem valid_result_se_positive_when_computed_witness:
  "extract_effect_size ex_d =
     Ok \<lparr> r_g = Some 0, r_se = Some (9 / 56), r_method = Some ''cohen_d_conversion'',
          r_valid = True, r_issues = [], r_warnings = Some [],
          r_ci_95 = Some (- (63 / 200), 63 / 200), r_n1 = Some (PInt 64),
          r_n2 = Some (PInt 98) \<rparr> \<and>
   \<not> se_kept ex_d \<and> recognized_shape ex_d = Some ''cohen_d_conversion'' \<and>
   (\<exists>s. Some (9 / 56 :: real) = Some s \<and> 0 < s)"
proof -
  have k: "\<not> se_kept ex_d" by (simp add: se_kept_def not_none_def ex_d_def)
  have r: "recognized_shape ex_d = Some ''cohen_d_conversion''"
    by (simp add: recognized_shape_def shape_priority_def shape_present_def not_none_def
        ex_d_def)
  show ?thesis
    using valid_result_se_positive_when_computed [OF ex_d_run] ex_d_run k r by simp
qed

section \<open>Gate 2 and the sample sizes it sees\<close>

lemma set_unique [simp]: "set (unique xs) = set xs"
  by (simp add: unique_def)

lemma study_issues_label: "i \<in> set (study_issues min_n sid r) \<Longrightarrow> issue_study i = sid"
  by (auto simp: study_issues_def split: if_splits option.splits)

lemma study_issues_nonempty:
  "study_issues min_n sid r \<noteq> [] \<longleftrightarrow>
     (if is_prepost r then below (n_total r) (min_n * 2)
      else below (n_treatment r) min_n \<or> below (n_control r) min_n)"
  by (auto simp: study_issues_def below_def split: option.splits)

lemma first_row_study: "first_row df sid = Some r \<Longrightarrow> study_id r = sid \<and> sid \<in> set (map study_id df)"
  by (auto simp: first_row_def find_Some_iff)

lemma flagged_iff:
  assumes "first_row df sid = Some r"
  shows "flagged env df sid \<longleftrightarrow> study_issues (min_sample_size (targets env)) sid r \<noteq> []"
proof -
  let ?m = "min_sample_size (targets env)"
  let ?f = "\<lambda>s. case first_row df s of None \<Rightarrow> [] | Some r \<Rightarrow> study_issues ?m s r"
  have iss: "issues (snd (gate2_check env df)) = concat (map ?f (unique (map study_id df)))"
    by (simp add: gate2_check_def Let_def)
  have mem: "sid \<in> set (map study_id df)" using assms first_row_study by blast
  have lab: "issue_study i = s" if "i \<in> set (?f s)" for i s
    using that study_issues_label by (auto split: option.splits)
  show ?thesis
  proof
    assume "flagged env df sid"
    then obtain i s where i: "i \<in> set (?f s)" and l: "issue_study i = sid"
      by (auto simp: flagged_def iss list_ex_iff)
    then have "s = sid" using lab by blast
    then show "study_issues ?m sid r \<noteq> []" using i assms by auto
  next
    assume ne: "study_issues ?m sid r \<noteq> []"
    then obtain i where i: "i \<in> set (study_issues ?m sid r)" by (cases "study_issues ?m sid r") auto
    then have "i \<in> set (?f sid)" using assms by simp
    moreover have "issue_study i = sid" using i by (rule study_issues_label)
    moreover have "sid \<in> set (unique (map study_id df))" using mem by simp
    ultimately have "\<exists>s\<in>set (unique (map study_id df)). i \<in> set (?f s)" and "issue_study i = sid"
      by blast+
    then have "i \<in> set (concat (map ?f (unique (map study_id df))))" and "issue_study i = sid"
      by (simp_all only: set_concat set_map UN_iff image_iff) blast
    then show "flagged env df sid"
      unfolding flagged_def iss list_ex_iff by blast
  qed
qed

lemma gate2_passed_iff:
  "fst (gate2_check env df) \<longleftrightarrow> (\<forall>sid\<in>set (map study_id df). \<not> flagged env df sid)"
proof -
  let ?is = "issues (snd (gate2_check env df))"
  have p: "fst (gate2_check env df) \<longleftrightarrow> ?is = []"
    by (simp add: gate2_check_def Let_def)
  have lab: "issue_study i \<in> set (map study_id df)" if "i \<in> set ?is" for i
  proof -
    let ?f = "\<lambda>s. case first_row df s of None \<Rightarrow> []
                  | Some r \<Rightarrow> study_issues (min_sample_size (targets env)) s r"
    have eq: "?is = concat (map ?f (unique (map study_id df)))"
      by (simp add: gate2_check_def Let_def)
    have "i \<in> set (concat (map ?f (unique (map study_id df))))"
      using that unfolding eq .
    then obtain s where s: "s \<in> set (unique (map study_id df))" and i: "i \<in> set (?f s)"
      by (simp only: set_concat set_map UN_iff image_iff) blast
    then obtain r where "i \<in> set (study_issues (min_sample_size (targets env)) s r)"
      by (cases "first_row df s") auto
    then have "issue_study i = s" by (rule study_issues_label)
    moreover have "s \<in> set (map study_id df)" using s by simp
    ultimately have "issue_study i \<in> set (map study_id df)" by simp
    then show ?thesis .
  qed
  show ?thesis
  proof
    assume "fst (gate2_check env df)"
    then show "\<forall>sid\<in>set (map study_id df). \<not> flagged env df sid"
      by (simp add: p flagged_def)
  next
    assume a: "\<forall>sid\<in>set (map study_id df). \<not> flagged env df sid"
    have "?is = []"
    proof (rule ccontr)
      assume "?is \<noteq> []"
      then obtain i where i: "i \<in> set ?is" by (cases ?is) auto
      then have "flagged env df (issue_study i)" by (auto simp: flagged_def list_ex_iff)
      then show False using a lab [OF i] by blast
    qed
    then show "fst (gate2_check env df)" by (simp add: p)
  qed
qed

lemmas gate2_eval =
  gate2_check_def Let_def default_env_def default_targets_def unique_def first_row_def
  study_row_def study_issues_def is_prepost_def lower_def lower_char_def starts_with_def

text \<open>
  The claim C7 as stated fails: a pre-post study whose \<open>n_total\<close> is missing does not meet
  the requirement \<open>n_total \<ge> 2 * min_n\<close>, and gate 2 passes it.
\<close>

theorem gate2_passes_missing_total:
  "fst (gate2_check default_env [study_row ''s1'' ''pre_post'' None None None]) \<and>
   \<not> sample_size_requirement 10 (study_row ''s1'' ''pre_post'' None None None)"
  by (simp add: gate2_eval sample_size_requirement_def)

text \<open>
  C7 (amended). Gate 2 reports a study exactly when the sample size it looks at is present
  and below its bound: \<open>n_total < 2 * min_n\<close> when the design type of the study's first row
  contains "pre" or "post" (case-insensitive), otherwise \<open>n_treatment < min_n\<close> or
  \<open>n_control < min_n\<close>; a missing sample size is not reported. The gate passes exactly when
  no study is reported; when all three sizes are present, a study is reported exactly when
  it violates the requirement. A pre-post study with \<open>n_total = 15\<close> fails the gate and an
  RCT with 12 and 12 passes it (\<open>min_n = 10\<close>).
\<close>

theorem gate2_flags_present_sizes_below_bound:
  assumes "first_row df sid = Some r"
  shows "(flagged env df sid \<longleftrightarrow>
            (if is_prepost r then below (n_total r) (2 * min_sample_size (targets env))
             else below (n_treatment r) (min_sample_size (targets env)) \<or>
                  below (n_control r) (min_sample_size (targets env)))) \<and>
         (fst (gate2_check env df) \<longleftrightarrow> (\<forall>s\<in>set (map study_id df). \<not> flagged env df s)) \<and>
         (n_total r \<noteq> None \<and> n_treatment r \<noteq> None \<and> n_control r \<noteq> None \<longrightarrow>
            (flagged env df sid \<longleftrightarrow> \<not> sample_size_requirement (min_sample_size (targets env)) r)) \<and>
         \<not> fst (gate2_check default_env [study_row sid ''pre_post'' nt nc (Some 15)]) \<and>
         fst (gate2_check default_env [study_row sid ''rct'' (Some 12) (Some 12) ntot])"
proof -
  let ?m = "min_sample_size (targets env)"
  have A: "flagged env df sid \<longleftrightarrow>
            (if is_prepost r then below (n_total r) (2 * ?m)
             else below (n_treatment r) ?m \<or> below (n_control r) ?m)"
    using flagged_iff [OF assms, of env] by (simp add: study_issues_nonempty mult.commute)
  have B: "n_total r \<noteq> None \<and> n_treatment r \<noteq> None \<and> n_control r \<noteq> None \<longrightarrow>
            (flagged env df sid \<longleftrightarrow> \<not> sample_size_requirement ?m r)"
    unfolding A by (auto simp: sample_size_requirement_def below_def)
  have C: "\<not> fst (gate2_check default_env [study_row sid ''pre_post'' nt nc (Some 15)])"
    by (simp add: gate2_eval)
  have D: "fst (gate2_check default_env [study_row sid ''rct'' (Some 12) (Some 12) ntot])"
    by (simp add: gate2_eval)
  show ?thesis using A B C D gate2_passed_iff [of env df] by blast
qed

theorem gate2_flags_present_sizes_below_bound_witness:
  "first_row [study_row ''s1'' ''pre_post'' None None (Some 15)] ''s1'' =
     Some (study_row ''s1'' ''pre_post'' None None (Some 15)) \<and>
   flagged default_env [study_row ''s1'' ''pre_post'' None None (Some 15)] ''s1'' \<and>
   \<not> fst (gate2_check default_env [study_row ''s1'' ''pre_post'' None None (Some 15)]) \<and>
   fst (gate2_check default_env [study_row ''s1'' ''rct'' (Some 12) (Some 12) None])"
proof -
  have f: "first_row [study_row ''s1'' ''pre_post'' None None (Some 15)] ''s1'' =
     Some (study_row ''s1'' ''pre_post'' None None (Some 15))"
    by (simp add: first_row_def study_row_def)
  have p: "is_prepost (study_row ''s1'' ''pre_post'' None None (Some 15))"
    by (simp add: gate2_eval)
  have b: "below (n_total (study_row ''s1'' ''pre_post'' None None (Some 15)))
             (2 * min_sample_size (targets default_env))"
    by (simp add: below_def study_row_def default_env_def default_targets_def)
  note T = gate2_flags_present_sizes_below_bound [OF f, of default_env None None None]
  have A: "flagged default_env [study_row ''s1'' ''pre_post'' None None (Some 15)] ''s1'' \<longleftrightarrow>
      (if is_prepost (study_row ''s1'' ''pre_post'' None None (Some 15))
       then below (n_total (study_row ''s1'' ''pre_post'' None None (Some 15)))
              (2 * min_sample_size (targets default_env))
       else below (n_treatment (study_row ''s1'' ''pre_post'' None None (Some 15)))
              (min_sample_size (targets default_env)) \<or>
            below (n_control (study_row ''s1'' ''pre_post'' None None (Some 15)))
              (min_sample_size (targets default_env)))"
    using T by (elim conjE)
  have fl: "flagged default_env [study_row ''s1'' ''pre_post'' None None (Some 15)] ''s1''"
    unfolding A using p b by (simp only: if_True)
  have C: "\<not> fst (gate2_check default_env [study_row ''s1'' ''pre_post'' None None (Some 15)])"
    using T by (elim conjE)
  have D: "fst (gate2_check default_env [study_row ''s1'' ''rct'' (Some 12) (Some 12) None])"
    using T by (elim conjE)
  show ?thesis using f fl C D by (intro conjI)
qed

section \<open>Running the gates twice\<close>

lemma run_gate_frame: "frame_of (snd (run_gate short check wrap env st)) = frame_of st"
  by (simp add: run_gate_def log_quality_check_def split: prod.splits)

lemma run_gate_result:
  "fst (run_gate short check wrap env st) =
     (fst (check env (frame_of st)), wrap (snd (check env (frame_of st))))"
  by (simp add: run_gate_def split: prod.splits)

lemma run_gate_alt:
  "run_gate short check wrap env st =
     ((fst (check env (frame_of st)), wrap (snd (check env (frame_of st)))),
      log_quality_check short (fst (check env (frame_of st)))
        (wrap (snd (check env (frame_of st)))) st)"
  by (simp add: run_gate_def split: prod.splits)

lemma frame_of_log [simp]: "frame_of (log_quality_check name passed d st) = frame_of st"
  by (simp add: log_quality_check_def)

lemma gate_loop_gates:
  "\<exists>st'. gate_loop gates env ([], True) st =
     ((expected_results env (frame_of st),
       fst (gate1_check env (frame_of st)) \<and> fst (gate2_check env (frame_of st)) \<and>
       fst (gate3_check env (frame_of st)) \<and> fst (gate4_check env (frame_of st)) \<and>
       fst (gate5_check env (frame_of st)) \<and> fst (gate6_check env (frame_of st))), st') \<and>
     frame_of st' = frame_of st"
  by (simp add: gates_def expected_results_def gate1_effect_size_range_def gate2_sample_size_def
      gate3_design_validity_def gate4_outcome_type_def gate5_completeness_def
      gate6_no_duplicates_def run_gate_alt)

text \<open>
  C9. Two runs of \<open>run_all_gates\<close> on the same data frame, within one process and whatever
  the clock and the audit log, give the same \<open>all_gates_passed\<close> and the same gate results;
  the frame is the same after each run; the gate results are the six verdicts computed from
  the frame alone, and \<open>all_gates_passed\<close> is the conjunction of their \<open>passed\<close> flags.
\<close>

theorem run_all_gates_idempotent:
  "(case run_all_gates now1 env st of (rep1, st1) \<Rightarrow>
      case run_all_gates now2 env st1 of (rep2, st2) \<Rightarrow>
        all_gates_passed rep2 = all_gates_passed rep1 \<and>
        gate_results rep2 = gate_results rep1 \<and>
        frame_of st1 = frame_of st \<and> frame_of st2 = frame_of st \<and>
        gate_results rep1 = expected_results env (frame_of st) \<and>
        all_gates_passed rep1 =
          (fst (gate1_check env (frame_of st)) \<and> fst (gate2_check env (frame_of st)) \<and>
           fst (gate3_check env (frame_of st)) \<and> fst (gate4_check env (frame_of st)) \<and>
           fst (gate5_check env (frame_of st)) \<and> fst (gate6_check env (frame_of st))) \<and>
        all_gates_passed rep1 = list_all (\<lambda>(name, passed, d). passed) (gate_results rep1) \<and>
        length (gate_results rep1) = 6)"
proof -
  obtain st1 where l1: "gate_loop gates env ([], True) st =
     ((expected_results env (frame_of st),
       fst (gate1_check env (frame_of st)) \<and> fst (gate2_check env (frame_of st)) \<and>
       fst (gate3_check env (frame_of st)) \<and> fst (gate4_check env (frame_of st)) \<and>
       fst (gate5_check env (frame_of st)) \<and> fst (gate6_check env (frame_of st))), st1)"
    and f1: "frame_of st1 = frame_of st"
    using gate_loop_gates [of env st] by blast
  obtain st2 where l2: "gate_loop gates env ([], True) st1 =
     ((expected_results env (frame_of st1),
       fst (gate1_check env (frame_of st1)) \<and> fst (gate2_check env (frame_of st1)) \<and>
       fst (gate3_check env (frame_of st1)) \<and> fst (gate4_check env (frame_of st1)) \<and>
       fst (gate5_check env (frame_of st1)) \<and> fst (gate6_check env (frame_of st1))), st2)"
    and f2: "frame_of st2 = frame_of st1"
    using gate_loop_gates [of env st1] by blast
  have all: "list_all (\<lambda>(name, passed, d). passed) (expected_results env df) =
      (fst (gate1_check env df) \<and> fst (gate2_check env df) \<and>
       fst (gate3_check env df) \<and> fst (gate4_check env df) \<and>
       fst (gate5_check env df) \<and> fst (gate6_check env df))" for df
    by (simp add: expected_results_def)
  have len: "length (expected_results env df) = 6" for df
    by (simp add: expected_results_def)
  show ?thesis
    by (simp add: run_all_gates_def Let_def l1 l2 f1 f2 all len)
qed

theorem run_all_gates_idempotent_witness:
  "(case run_all_gates ''t1'' default_env st_example of (rep1, st1) \<Rightarrow>
      case run_all_gates ''t2'' default_env st1 of (rep2, st2) \<Rightarrow>
        all_gates_passed rep2 = all_gates_passed rep1 \<and>
        gate_results rep2 = gate_results rep1 \<and>
        frame_of st1 = frame_of st_example \<and> frame_of st2 = frame_of st_example \<and>
        gate_results rep1 = expected_results default_env (frame_of st_example) \<and>
        all_gates_passed rep1 =
          (fst (gate1_check default_env (frame_of st_example)) \<and>
           fst (gate2_check default_env (frame_of st_example)) \<and>
           fst (gate3_check default_env (frame_of st_example)) \<and>
           fst (gate4_check default_env (frame_of st_example)) \<and>
           fst (gate5_check default_env (frame_of st_example)) \<and>
           fst (gate6_check default_env (frame_of st_example))) \<and>
        all_gates_passed rep1 = list_all (\<lambda>(name, passed, d). passed) (gate_results rep1) \<and>
        length (gate_results rep1) = 6)"
  by (rule run_all_gates_idempotent)

section \<open>The consensus effect sizes\<close>

lemmas synth_eval =
  synthesize_effect_sizes_def label_effects_def collect_model_def add_entry_def consensus_of_def
  label_of_def entry_of_def es_entry_def Let_def py_round_def

text \<open>
  The claim C2 as stated fails: with three models reporting "test1", one of them without
  a \<open>hedges_g\<close>, two models contribute a g value, yet the record says 3 and "3/3\_agree"; and
  the consensus value is the mean rounded to four decimals (0.1235 for the mean 0.123455).
\<close>

theorem consensus_counts_null_entries:
  "synthesize_effect_sizes models_two_of_three =
     [\<lparr> cs_outcome_label = ''test1'',
        cs_hedges_g_consensus = 1235 / 10000,
        cs_se_g_consensus = Some (1 / 10),
        cs_g_values_per_model = [12345 / 100000, 12346 / 100000],
        cs_n_models_agree = 3,
        cs_consensus_quality = ''3/3_agree'',
        cs_flag = None \<rparr>]"
  by (simp add: synth_eval models_two_of_three_def del: not_None_eq)

lemma agree_run:
  "synthesize_effect_sizes models_agree =
     [\<lparr> cs_outcome_label = ''test1'',
        cs_hedges_g_consensus = 1 / 2,
        cs_se_g_consensus = Some (1 / 10),
        cs_g_values_per_model = [1 / 2, 1 / 2, 1 / 2],
        cs_n_models_agree = 3,
        cs_consensus_quality = ''3/3_agree'',
        cs_flag = None \<rparr>]"
  by (simp add: synth_eval models_agree_def del: not_None_eq)

lemma unique_snoc: "unique (xs @ [x]) = (if x \<in> set xs then unique xs else unique xs @ [x])"
  by (simp add: unique_def)

lemma fold_add_entry_collect:
  "fold collect_model mr acc = fold (\<lambda>x le. add_entry le x) (reported mr) acc"
proof (induction mr arbitrary: acc)
  case Nil
  then show ?case by (simp add: reported_def)
next
  case (Cons m mr)
  obtain name r where m: "m = (name, r)" by (cases m)
  have rep: "reported (m # mr) =
      (case r of ModelError msg \<Rightarrow> []
       | ModelResult ess \<Rightarrow> map (\<lambda>es. (label_of es, entry_of name es)) ess) @ reported mr"
    by (simp add: reported_def m)
  have step: "collect_model m acc =
      fold (\<lambda>x le. add_entry le x)
        (case r of ModelError msg \<Rightarrow> []
         | ModelResult ess \<Rightarrow> map (\<lambda>es. (label_of es, entry_of name es)) ess) acc"
    by (cases r) (simp_all add: collect_model_def m fold_map comp_def)
  have "fold collect_model (m # mr) acc = fold collect_model mr (collect_model m acc)"
    by simp
  also have "\<dots> = fold (\<lambda>x le. add_entry le x) (reported mr) (collect_model m acc)"
    by (rule Cons.IH)
  also have "\<dots> = fold (\<lambda>x le. add_entry le x) (reported (m # mr)) acc"
    by (simp only: step rep fold_append comp_def)
  finally show ?case .
qed

lemma fold_add_entry:
  "fold (\<lambda>x le. add_entry le x) xs [] =
     map (\<lambda>l. (l, map snd (filter (\<lambda>(l', e). l' = l) xs))) (unique (map fst xs))"
proof (induction xs rule: rev_induct)
  case Nil
  then show ?case by (simp add: unique_def)
next
  case (snoc x xs)
  obtain l e where x: "x = (l, e)" by (cases x)
  let ?le = "map (\<lambda>l. (l, map snd (filter (\<lambda>(l', e). l' = l) xs))) (unique (map fst xs))"
  have keys: "map fst ?le = unique (map fst xs)" by (simp add: comp_def)
  show ?case
  proof (cases "l \<in> set (map fst xs)")
    case True
    then have "l \<in> set (map fst ?le)" unfolding keys by simp
    then have "add_entry ?le x =
        map (\<lambda>(k, vs). if k = l then (k, vs @ [e]) else (k, vs)) ?le"
      by (simp add: add_entry_def x)
    also have "\<dots> = map (\<lambda>k. (k, map snd (filter (\<lambda>(l', e). l' = k) (xs @ [x]))))
                       (unique (map fst xs))"
      by (simp add: x comp_def)
    finally show ?thesis using True snoc.IH by (simp add: unique_snoc x)
  next
    case False
    then have nl: "l \<notin> set (map fst ?le)" unfolding keys by simp
    have nf: "filter (\<lambda>(l', e). l' = l) xs = []" using False
      by (auto simp: filter_empty_conv) (metis fst_conv image_eqI)
    have "add_entry ?le x = ?le @ [(l, [e])]" using nl by (simp add: add_entry_def x)
    moreover have "map (\<lambda>k. (k, map snd (filter (\<lambda>(l', e). l' = k) (xs @ [x]))))
                     (unique (map fst xs)) = ?le"
      using False by (auto simp: x)
    ultimately show ?thesis using False snoc.IH by (simp add: unique_snoc x nf)
  qed
qed

lemma label_effects_eq:
  "label_effects mr = map (\<lambda>l. (l, entries_for mr l)) (unique (map fst (reported mr)))"
  by (simp add: label_effects_def fold_add_entry_collect fold_add_entry entries_for_def)

lemma map_the_filter:
  "map (\<lambda>v. the (f v)) (filter (\<lambda>v. f v \<noteq> None) xs) = List.map_filter f xs"
  by (induction xs) (auto simp: List.map_filter_simps)

lemma consensus_of_entries:
  "consensus_of (l, entries_for mr l) =
     (if g_values_for mr l = [] then [] else [consensus_for mr l])"
proof -
  let ?vals = "entries_for mr l"
  have g: "map (\<lambda>v. the (e_hedges_g v)) (filter (\<lambda>v. e_hedges_g v \<noteq> None) ?vals)
             = g_values_for mr l"
    by (simp only: map_the_filter g_values_for_def)
  have s: "map (\<lambda>v. the (e_se_g v))
             (filter (\<lambda>v. e_se_g v \<noteq> None) (filter (\<lambda>v. e_hedges_g v \<noteq> None) ?vals))
             = se_values_for mr l"
    by (simp only: map_the_filter se_values_for_def)
  have e: "filter (\<lambda>v. e_hedges_g v \<noteq> None) ?vals = [] \<longleftrightarrow> g_values_for mr l = []"
    using g by (metis map_is_Nil_conv)
  show ?thesis
    unfolding consensus_of_def prod.case Let_def g s e
    by (simp add: consensus_for_def tier_def mean_def del: not_None_eq)
qed

lemma synthesize_eq:
  "synthesize_effect_sizes mr =
     map (consensus_for mr)
       (filter (\<lambda>l. g_values_for mr l \<noteq> []) (unique (map fst (reported mr))))"
proof -
  have "concat (map (\<lambda>l. consensus_of (l, entries_for mr l)) ls) =
      map (consensus_for mr) (filter (\<lambda>l. g_values_for mr l \<noteq> []) ls)" for ls
    by (induction ls) (simp_all add: consensus_of_entries)
  then show ?thesis
    by (simp add: synthesize_effect_sizes_def label_effects_eq comp_def)
qed

lemma all_have_g:
  "list_all (\<lambda>v. e_hedges_g v \<noteq> None) vs \<Longrightarrow> length (List.map_filter e_hedges_g vs) = length vs"
  by (induction vs) (auto simp: List.map_filter_simps)

text \<open>
  C2 (amended). The labels of the consensus records are the labels with at least one
  non-null g among the models that did not error, each once, in order of first report; a
  label with no non-null g has no record. For each record, \<open>hedges_g_consensus\<close> is the mean
  of the non-null g values rounded to four decimals, \<open>se_g_consensus\<close> is the rounded mean of
  the non-null se values of the entries with a g (null when there is none or the mean is
  0), and, when every entry reported for the label has a g, \<open>n_models_agree\<close> is the number
  of contributing entries and quality and flag are its tier.
\<close>

theorem consensus_is_rounded_mean:
  "map cs_outcome_label (synthesize_effect_sizes mr) =
     filter (\<lambda>l. g_values_for mr l \<noteq> []) (unique (map fst (reported mr))) \<and>
   (\<forall>c\<in>set (synthesize_effect_sizes mr).
      g_values_for mr (cs_outcome_label c) \<noteq> [] \<and>
      cs_g_values_per_model c = g_values_for mr (cs_outcome_label c) \<and>
      cs_hedges_g_consensus c = py_round 4 (mean (g_values_for mr (cs_outcome_label c))) \<and>
      cs_se_g_consensus c =
        (if se_values_for mr (cs_outcome_label c) = [] \<or>
            mean (se_values_for mr (cs_outcome_label c)) = 0 then None
         else Some (py_round 4 (mean (se_values_for mr (cs_outcome_label c))))) \<and>
      (list_all (\<lambda>v. e_hedges_g v \<noteq> None) (entries_for mr (cs_outcome_label c)) \<longrightarrow>
         cs_n_models_agree c = length (g_values_for mr (cs_outcome_label c)) \<and>
         (cs_consensus_quality c, cs_flag c) = tier (length (g_values_for mr (cs_outcome_label c)))))"
proof (intro conjI ballI)
  show "map cs_outcome_label (synthesize_effect_sizes mr) =
     filter (\<lambda>l. g_values_for mr l \<noteq> []) (unique (map fst (reported mr)))"
    by (simp add: synthesize_eq comp_def consensus_for_def)
next
  fix c assume "c \<in> set (synthesize_effect_sizes mr)"
  then obtain l where c: "c = consensus_for mr l" and l: "g_values_for mr l \<noteq> []"
    by (auto simp: synthesize_eq)
  have lab: "cs_outcome_label c = l" by (simp add: c consensus_for_def)
  show "g_values_for mr (cs_outcome_label c) \<noteq> []" using l lab by simp
  show "cs_g_values_per_model c = g_values_for mr (cs_outcome_label c)"
    by (simp add: c consensus_for_def)
  show "cs_hedges_g_consensus c = py_round 4 (mean (g_values_for mr (cs_outcome_label c)))"
    by (simp add: c consensus_for_def)
  show "cs_se_g_consensus c =
        (if se_values_for mr (cs_outcome_label c) = [] \<or>
            mean (se_values_for mr (cs_outcome_label c)) = 0 then None
         else Some (py_round 4 (mean (se_values_for mr (cs_outcome_label c)))))"
    by (simp add: c consensus_for_def)
  show "list_all (\<lambda>v. e_hedges_g v \<noteq> None) (entries_for mr (cs_outcome_label c)) \<longrightarrow>
         cs_n_models_agree c = length (g_values_for mr (cs_outcome_label c)) \<and>
         (cs_consensus_quality c, cs_flag c) = tier (length (g_values_for mr (cs_outcome_label c)))"
  proof
    assume "list_all (\<lambda>v. e_hedges_g v \<noteq> None) (entries_for mr (cs_outcome_label c))"
    then have "length (g_values_for mr l) = length (entries_for mr l)"
      unfolding lab g_values_for_def by (rule all_have_g)
    then show "cs_n_models_agree c = length (g_values_for mr (cs_outcome_label c)) \<and>
         (cs_consensus_quality c, cs_flag c) = tier (length (g_values_for mr (cs_outcome_label c)))"
      by (simp add: c consensus_for_def)
  qed
qed

theorem consensus_is_rounded_mean_witness:
  "synthesize_effect_sizes models_agree =
     [\<lparr> cs_outcome_label = ''test1'',
        cs_hedges_g_consensus = 1 / 2,
        cs_se_g_consensus = Some (1 / 10),
        cs_g_values_per_model = [1 / 2, 1 / 2, 1 / 2],
        cs_n_models_agree = 3,
        cs_consensus_quality = ''3/3_agree'',
        cs_flag = None \<rparr>] \<and>
   g_values_for models_agree ''test1'' = [1 / 2, 1 / 2, 1 / 2] \<and>
   list_all (\<lambda>v. e_hedges_g v \<noteq> None) (entries_for models_agree ''test1'') \<and>
   py_round 4 (mean (g_values_for models_agree ''test1'')) = 1 / 2 \<and>
   tier (length (g_values_for models_agree ''test1'')) = (''3/3_agree'', None)"
proof -
  let ?c = "\<lparr> cs_outcome_label = ''test1'',
        cs_hedges_g_consensus = 1 / 2,
        cs_se_g_consensus = Some (1 / 10),
        cs_g_values_per_model = [1 / 2, 1 / 2, 1 / 2],
        cs_n_models_agree = 3,
        cs_consensus_quality = ''3/3_agree'',
        cs_flag = None \<rparr>"
  have mem: "?c \<in> set (synthesize_effect_sizes models_agree)" by (simp add: agree_run)
  have en: "entries_for models_agree ''test1'' =
      [\<lparr>e_model = ''claude'', e_hedges_g = Some (1 / 2), e_se_g = Some (1 / 10), e_valid = True\<rparr>,
       \<lparr>e_model = ''gpt4o'', e_hedges_g = Some (1 / 2), e_se_g = Some (1 / 10), e_valid = True\<rparr>,
       \<lparr>e_model = ''groq'', e_hedges_g = Some (1 / 2), e_se_g = Some (1 / 10), e_valid = True\<rparr>]"
    by (simp add: entries_for_def reported_def models_agree_def label_of_def entry_of_def
        es_entry_def)
  have all: "list_all (\<lambda>v. e_hedges_g v \<noteq> None) (entries_for models_agree ''test1'')"
    by (simp add: en del: not_None_eq)
  note T = consensus_is_rounded_mean [of models_agree, THEN conjunct2, rule_format, OF mem]
  have g: "cs_g_values_per_model ?c = g_values_for models_agree (cs_outcome_label ?c)"
    using T by (elim conjE)
  have m: "cs_hedges_g_consensus ?c = py_round 4 (mean (g_values_for models_agree (cs_outcome_label ?c)))"
    using T by (elim conjE)
  have t: "list_all (\<lambda>v. e_hedges_g v \<noteq> None) (entries_for models_agree (cs_outcome_label ?c)) \<longrightarrow>
         cs_n_models_agree ?c = length (g_values_for models_agree (cs_outcome_label ?c)) \<and>
         (cs_consensus_quality ?c, cs_flag ?c) = tier (length (g_values_for models_agree (cs_outcome_label ?c)))"
    using T by (elim conjE)
  have t': "tier (length (g_values_for models_agree ''test1'')) = (''3/3_agree'', None)"
    using t all by (simp del: not_None_eq)
  show ?thesis using agree_run g m all t' by (simp del: not_None_eq)
qed

section \<open>Trim and fill: the imputed standard errors\<close>

lemma funnel_random_effects_meta_run:
  assumes len: "length se = length g" and k: "g \<noteq> []" and pos: "\<forall>s\<in>set se. 0 < s"
    and W: "W = map (\<lambda>x. 1 / x) (map (\<lambda>s. s ^ 2) se)"
    and gf: "gf = sum_list (map2 (*) W g) / sum_list W"
    and Q: "Q = sum_list (map2 (*) W (map (\<lambda>x. (x - gf) ^ 2) g))"
    and c: "c = sum_list W - sum_list (map (\<lambda>w. w ^ 2) W) / sum_list W"
    and c0: "c \<noteq> 0"
    and tau2: "tau2 = max 0 ((Q - (real (length g) - 1)) / c)"
    and Wre: "Wre = map (\<lambda>x. 1 / x) (map (\<lambda>v. v + tau2) (map (\<lambda>s. s ^ 2) se))"
    and gp: "gp = sum_list (map2 (*) Wre g) / sum_list Wre"
  shows "\<exists>p. funnel_random_effects_meta g se = Ok (Some p) \<and> fp_pooled_g p = gp \<and>
           fp_tau2 p = tau2 \<and> fp_Q p = Q \<and> fp_se_pooled p = sqrt (1 / sum_list Wre)"
proof -
  have se_ne: "se \<noteq> []" using len k by auto
  have var0: "0 \<notin> set (map (\<lambda>s. s ^ 2) se)" using pos by auto
  have s1: "np_recip (map (\<lambda>s. s ^ 2) se) = Ok W"
    unfolding W by (rule np_recip_Ok [OF var0])
  have lenW: "length W = length g" by (simp add: W len)
  have Wpos: "\<forall>w\<in>set W. 0 < w" using pos by (auto simp: W)
  have "W \<noteq> []" using se_ne by (simp add: W)
  then have SW: "0 < sum_list W" using Wpos by (rule sum_list_pos_real)
  have s2: "np_mul W g = Ok (map2 (*) W g)" using lenW by (rule np_mul_same)
  have s3: "np_div (np_sum (map2 (*) W g)) (np_sum W) = Ok gf"
    using SW by (simp add: np_div_def np_sum_def gf)
  have s4: "np_mul W (map (\<lambda>x. (x - gf) ^ 2) g) = Ok (map2 (*) W (map (\<lambda>x. (x - gf) ^ 2) g))"
    using lenW by (intro np_mul_same) simp
  have s5: "np_div (np_sum (map (\<lambda>w. w ^ 2) W)) (np_sum W) =
      Ok (sum_list (map (\<lambda>w. w ^ 2) W) / sum_list W)"
    using SW by (simp add: np_div_def np_sum_def)
  have Qe: "np_sum (map2 (*) W (map (\<lambda>x. (x - gf) ^ 2) g)) = Q"
    by (simp add: Q np_sum_def)
  have ce: "np_sum W - sum_list (map (\<lambda>w. w ^ 2) W) / sum_list W = c"
    by (simp add: c np_sum_def)
  have s6: "np_tau2 (Q - (real (length g) - 1)) c = Ok tau2"
    using c0 by (simp add: np_tau2_def tau2)
  have tau2_nn: "0 \<le> tau2" by (simp add: tau2)
  have v0: "0 \<notin> set (map (\<lambda>v. v + tau2) (map (\<lambda>s. s ^ 2) se))"
  proof
    assume "0 \<in> set (map (\<lambda>v. v + tau2) (map (\<lambda>s. s ^ 2) se))"
    then obtain s where s: "s \<in> set se" and z: "s ^ 2 + tau2 = 0" by auto
    have "0 < s ^ 2" using pos s by (auto simp: zero_less_power)
    with tau2_nn z show False by linarith
  qed
  have s7: "np_recip (map (\<lambda>v. v + tau2) (map (\<lambda>s. s ^ 2) se)) = Ok Wre"
    unfolding Wre by (rule np_recip_Ok [OF v0])
  have lenWre: "length Wre = length g" by (simp add: Wre len)
  have Wre_pos: "\<forall>w\<in>set Wre. 0 < w"
  proof
    fix w assume "w \<in> set Wre"
    then obtain s where s: "s \<in> set se" and w: "w = 1 / (s ^ 2 + tau2)" by (auto simp: Wre)
    have "0 < s ^ 2" using pos s by (auto simp: zero_less_power)
    with tau2_nn have "0 < s ^ 2 + tau2" by linarith
    then show "0 < w" by (simp add: w)
  qed
  have "Wre \<noteq> []" using se_ne by (simp add: Wre)
  then have SWre: "0 < sum_list Wre" using Wre_pos by (rule sum_list_pos_real)
  have s8: "np_mul Wre g = Ok (map2 (*) Wre g)" using lenWre by (rule np_mul_same)
  have s9: "np_div (np_sum (map2 (*) Wre g)) (np_sum Wre) = Ok gp"
    using SWre by (simp add: np_div_def np_sum_def gp)
  have s10: "np_div 1 (np_sum Wre) = Ok (1 / sum_list Wre)"
    using SWre by (simp add: np_div_def np_sum_def)
  have s11: "np_sqrt (1 / sum_list Wre) = Ok (sqrt (1 / sum_list Wre))"
    using SWre by (simp add: np_sqrt_def)
  have glen: "(length g = 0) = False" using k by simp
  have "funnel_random_effects_meta g se = Ok (Some
          \<lparr> fp_pooled_g = gp,
            fp_se_pooled = sqrt (1 / sum_list Wre),
            fp_ci_lower = gp - 1.96 * sqrt (1 / sum_list Wre),
            fp_ci_upper = gp + 1.96 * sqrt (1 / sum_list Wre),
            fp_Q = Q, fp_df = int (length g) - 1,
            fp_I2 = (if 0 < Q then max 0 ((Q - (real (length g) - 1)) / Q * 100) else 0),
            fp_tau2 = tau2, fp_k = length g \<rparr>)"
    by (simp only: funnel_random_effects_meta_def Let_def glen if_False s1 thn_Ok s2 s3 s4 Qe s5
        ce s6 s7 s8 s9 s10 s11)
  then show ?thesis by simp
qed

lemma tf_loop_init:
  assumes e: "estimate_k0 g se side = Ok e"
  shows "tf_loop (Suc (Suc (Suc n))) g se side \<lparr>st_k0_prev = - 1, st_k0 = 0, st_rounds = 0\<rparr> =
           Ok (if int (length g) \<le> e
               then \<lparr>st_k0_prev = 0, st_k0 = max 0 (int (length g) - 1), st_rounds = 1\<rparr>
               else if e = 0 then \<lparr>st_k0_prev = 0, st_k0 = 0, st_rounds = 1\<rparr>
               else \<lparr>st_k0_prev = e, st_k0 = e, st_rounds = 2\<rparr>)"
  by (simp add: e Let_def)

lemma tf_loop_rounds:
  "tf_loop n g se side st = Ok st' \<Longrightarrow> st_rounds st' \<le> st_rounds st + n"
proof (induction n arbitrary: st)
  case 0
  then show ?case by simp
next
  case (Suc n)
  show ?case
  proof (cases "st_k0 st = st_k0_prev st")
    case True
    then show ?thesis using Suc.prems by simp
  next
    case False
    then obtain e where e: "estimate_k0 g se side = Ok e"
      using Suc.prems by (auto simp: thn_eq_Ok Let_def)
    let ?st = "st\<lparr>st_k0_prev := st_k0 st, st_k0 := e, st_rounds := Suc (st_rounds st)\<rparr>"
    show ?thesis
    proof (cases "int (length g) \<le> e")
      case True
      then show ?thesis using Suc.prems False e by (auto simp: Let_def)
    next
      case b: False
      then have "tf_loop n g se side ?st = Ok st'"
        using Suc.prems False e by (simp add: Let_def)
      then have "st_rounds st' \<le> st_rounds ?st + n" by (rule Suc.IH)
      then show ?thesis by simp
    qed
  qed
qed

lemma tf_pooled:
  "\<exists>p. funnel_random_effects_meta tf_g tf_se = Ok (Some p) \<and> fp_pooled_g p = 16 / 65"
proof -
  have "\<exists>p. funnel_random_effects_meta tf_g tf_se = Ok (Some p) \<and> fp_pooled_g p = 16 / 65 \<and>
           fp_tau2 p = 0 \<and> fp_Q p = 1109 / 1300 \<and>
           fp_se_pooled p = sqrt (1 / sum_list [1, 1, 1, 1 / 4])"
  proof (rule funnel_random_effects_meta_run [where W = "[1, 1, 1, 1 / 4]" and c = "30 / 13"])
    show "length tf_se = length tf_g" by (simp add: tf_g_def tf_se_def)
    show "tf_g \<noteq> []" by (simp add: tf_g_def)
    show "\<forall>s\<in>set tf_se. 0 < s" by (simp add: tf_se_def)
    show "[1, 1, 1, 1 / 4] = map (\<lambda>x. 1 / x) (map (\<lambda>s. s ^ 2) tf_se)"
      by (simp add: tf_se_def)
    show "(16 / 65 :: real) = sum_list (map2 (*) [1, 1, 1, 1 / 4] tf_g) / sum_list [1, 1, 1, 1 / 4]"
      by (simp add: tf_g_def)
    show "(1109 / 1300 :: real) =
        sum_list (map2 (*) [1, 1, 1, 1 / 4] (map (\<lambda>x. (x - 16 / 65) ^ 2) tf_g))"
      by (simp add: tf_g_def power2_eq_square)
    show "(30 / 13 :: real) = sum_list [1, 1, 1, 1 / 4] -
        sum_list (map (\<lambda>w. w ^ 2) [1, 1, 1, 1 / 4]) / sum_list [1, 1, 1, 1 / 4]"
      by (simp add: power2_eq_square)
    show "(30 / 13 :: real) \<noteq> 0" by simp
    show "(0 :: real) = max 0 ((1109 / 1300 - (real (length tf_g) - 1)) / (30 / 13))"
      by (simp add: tf_g_def)
    show "[1, 1, 1, 1 / 4] =
        map (\<lambda>x. 1 / x) (map (\<lambda>v. v + 0) (map (\<lambda>s. s ^ 2) tf_se))"
      by (simp add: tf_se_def)
    show "(16 / 65 :: real) = sum_list (map2 (*) [1, 1, 1, 1 / 4] tf_g) / sum_list [1, 1, 1, 1 / 4]"
      by (simp add: tf_g_def)
  qed
  then show ?thesis by blast
qed

lemma tf_adjusted:
  "\<exists>p. funnel_random_effects_meta (tf_g @ [- (98 / 65)]) (tf_se @ [1]) = Ok (Some p) \<and>
        fp_pooled_g p = - (184 / 1105)"
proof -
  have "\<exists>p. funnel_random_effects_meta (tf_g @ [- (98 / 65)]) (tf_se @ [1]) = Ok (Some p) \<and>
           fp_pooled_g p = - (184 / 1105) \<and>
           fp_tau2 p = 0 \<and> fp_Q p = 5449 / 1700 \<and>
           fp_se_pooled p = sqrt (1 / sum_list [1, 1, 1, 1 / 4, 1])"
  proof (rule funnel_random_effects_meta_run [where W = "[1, 1, 1, 1 / 4, 1]" and c = "56 / 17"])
    show "length (tf_se @ [1]) = length (tf_g @ [- (98 / 65)])" by (simp add: tf_g_def tf_se_def)
    show "tf_g @ [- (98 / 65)] \<noteq> []" by simp
    show "\<forall>s\<in>set (tf_se @ [1]). 0 < s" by (simp add: tf_se_def)
    show "[1, 1, 1, 1 / 4, 1] = map (\<lambda>x. 1 / x) (map (\<lambda>s. s ^ 2) (tf_se @ [1]))"
      by (simp add: tf_se_def)
    show "(- (184 / 1105) :: real) =
        sum_list (map2 (*) [1, 1, 1, 1 / 4, 1] (tf_g @ [- (98 / 65)])) / sum_list [1, 1, 1, 1 / 4, 1]"
      by (simp add: tf_g_def)
    show "(5449 / 1700 :: real) =
        sum_list (map2 (*) [1, 1, 1, 1 / 4, 1]
          (map (\<lambda>x. (x - - (184 / 1105)) ^ 2) (tf_g @ [- (98 / 65)])))"
      by (simp add: tf_g_def power2_eq_square)
    show "(56 / 17 :: real) = sum_list [1, 1, 1, 1 / 4, 1] -
        sum_list (map (\<lambda>w. w ^ 2) [1, 1, 1, 1 / 4, 1]) / sum_list [1, 1, 1, 1 / 4, 1]"
      by (simp add: power2_eq_square)
    show "(56 / 17 :: real) \<noteq> 0" by simp
    show "(0 :: real) =
        max 0 ((5449 / 1700 - (real (length (tf_g @ [- (98 / 65)])) - 1)) / (56 / 17))"
      by (simp add: tf_g_def)
    show "[1, 1, 1, 1 / 4, 1] =
        map (\<lambda>x. 1 / x) (map (\<lambda>v. v + 0) (map (\<lambda>s. s ^ 2) (tf_se @ [1])))"
      by (simp add: tf_se_def)
    show "(- (184 / 1105) :: real) =
        sum_list (map2 (*) [1, 1, 1, 1 / 4, 1] (tf_g @ [- (98 / 65)])) / sum_list [1, 1, 1, 1 / 4, 1]"
      by (simp add: tf_g_def)
  qed
  then show ?thesis by blast
qed

lemma tf_estimate: "estimate_k0 tf_g tf_se ''left'' = Ok 1"
proof -
  obtain p where p: "funnel_random_effects_meta tf_g tf_se = Ok (Some p)"
    and c: "fp_pooled_g p = 16 / 65"
    using tf_pooled by blast
  have dev: "map (\<lambda>x. x - 16 / 65) tf_g = [- (16 / 65), - (19 / 130), - (3 / 65), 114 / 65]"
    by (simp add: tf_g_def)
  have ranks: "argsort [- (16 / 65), - (19 / 130), - (3 / 65), 114 / 65 :: real] = [0, 1, 2, 3]"
    by (simp add: argsort_def upt_rec)
  have r: "py_round_int (4 / 7) = 1" by (simp add: py_round_int_def Let_def)
  have len: "length tf_g = 4" by (simp add: tf_g_def)
  have upt: "[0..<4] = [0, Suc 0, 2, 3]" by (simp add: upt_rec)
  have "rank_sum ''left'' (map (\<lambda>x. x - 16 / 65) tf_g)
          (argsort (map (\<lambda>x. x - 16 / 65) tf_g)) [0..<4] 0 = Ok 6"
    unfolding dev ranks upt by (simp add: sign_counts_def)
  then show ?thesis
    by (simp add: estimate_k0_def p center_of_def c Let_def len r)
qed

lemma tf_impute:
  "impute ''left'' tf_g tf_se (16 / 65) 1 = Ok (tf_g @ [- (98 / 65)], tf_se @ [1])"
proof -
  have dist: "map (\<lambda>x. \<bar>x - 16 / 65\<bar>) tf_g = [16 / 65, 19 / 130, 3 / 65, 114 / 65]"
    by (simp add: tf_g_def)
  have order: "argsort [16 / 65, 19 / 130, 3 / 65, 114 / 65 :: real] = [2, 1, 0, 3]"
    by (simp add: argsort_def upt_rec)
  have idx: "take_indices tf_se [2, 1, 0, 3] = Ok [1, 1, 1, 2]"
    by (simp add: take_indices_def tf_se_def)
  have srt: "rev (sort tf_g) = [2, 1 / 5, 1 / 10, 0]" by (simp add: tf_g_def)
  have "take_indices tf_se (argsort (map (\<lambda>x. \<bar>x - 16 / 65\<bar>) tf_g)) = Ok [1, 1, 1, 2]"
    unfolding dist order by (rule idx)
  then show ?thesis by (simp add: impute_def Let_def srt)
qed

lemma tf_matched:
  "matched_imputation ''left'' tf_g tf_se (16 / 65) 1 = (tf_g @ [- (98 / 65)], tf_se @ [2])"
  by (simp add: matched_imputation_def mirrored_studies_def tf_g_def tf_se_def)

text \<open>
  C6. For the effects 0, 0.1, 0.2, 2.0 with standard errors 1, 1, 1, 2 and side "left",
  the loop settles on one missing study after two rounds and mirrors the most extreme
  study (2.0, standard error 2) around the pooled centre 16/65. The imputed study gets
  the standard error 1 of the study nearest to the centre, not the standard error 2 of
  the study it mirrors, and the adjusted estimate is pooled from that set.
\<close>

theorem trim_and_fill_imputes_unmatched_se:
  "impute ''left'' tf_g tf_se (16 / 65) 1 = Ok (tf_g @ [- (98 / 65)], tf_se @ [1]) \<and>
   matched_imputation ''left'' tf_g tf_se (16 / 65) 1 = (tf_g @ [- (98 / 65)], tf_se @ [2]) \<and>
   (\<exists>r. trim_and_fill tf_g tf_se ''left'' 20 = Ok r \<and> k0_imputed r = 1 \<and>
        adjusted_pooled_g r = Some (- (184 / 1105)) \<and> converged r)"
proof -
  obtain p where p: "funnel_random_effects_meta tf_g tf_se = Ok (Some p)"
    and c: "fp_pooled_g p = 16 / 65"
    using tf_pooled by blast
  obtain q where q: "funnel_random_effects_meta (tf_g @ [- (98 / 65)]) (tf_se @ [1]) = Ok (Some q)"
    and a: "fp_pooled_g q = - (184 / 1105)"
    using tf_adjusted by blast
  have len: "length tf_g = 4" by (simp add: tf_g_def)
  have loop: "tf_loop 20 tf_g tf_se ''left'' \<lparr>st_k0_prev = - 1, st_k0 = 0, st_rounds = 0\<rparr> =
      Ok \<lparr>st_k0_prev = 1, st_k0 = 1, st_rounds = 2\<rparr>"
    using tf_loop_init [OF tf_estimate, of 17] by (simp add: len eval_nat_numeral)
  have "\<exists>r. trim_and_fill tf_g tf_se ''left'' 20 = Ok r \<and> k0_imputed r = 1 \<and>
        adjusted_pooled_g r = Some (- (184 / 1105)) \<and> converged r"
    by (simp add: trim_and_fill_def loop p center_of_def c tf_impute q a)
  then show ?thesis using tf_impute tf_matched by blast
qed

theorem trim_and_fill_imputes_unmatched_se_witness:
  "impute ''left'' tf_g tf_se (16 / 65) 1 \<noteq>
     Ok (matched_imputation ''left'' tf_g tf_se (16 / 65) 1)"
  using trim_and_fill_imputes_unmatched_se by (simp add: tf_se_def)

end
